theory Spec2Isabelle
  imports Complex_Main
begin

section \<open>Behavioural CAPTCHA: the fallback risk scorer and the validation endpoint\<close>

text \<open>
  JavaScript numbers are modelled as \<^typ>\<open>real\<close>: the properties below are about
  the decision structure of the scorer (which adjustments are applied, the clamp, the
  derived flags), not about IEEE rounding. \<^verbatim>\<open>NaN\<close> and the infinities have no
  counterpart here; the typed request of \<^verbatim>\<open>captchaApi.ts\<close> (arrays of samples with
  numeric fields, a numeric \<^verbatim>\<open>sessionDuration\<close>) is the input type.
\<close>

subsection \<open>Telemetry samples (useBehaviorTracking.ts, captchaApi.ts)\<close>

record MouseData =
  mouse_x :: real
  mouse_y :: real
  mouse_timestamp :: real
  velocity :: real
  acceleration :: real

record ClickData =
  click_x :: real
  click_y :: real
  click_timestamp :: real

record KeystrokeData =
  key :: string
  key_timestamp :: real
  duration :: real

record BehaviorData =
  mouseMovements :: "MouseData list"
  clicks :: "ClickData list"
  keystrokes :: "KeystrokeData list"
  sessionDuration :: real
  pageVisible :: bool

subsection \<open>calculateBasicRiskScore (server.js, updated version)\<close>

text \<open>\<^verbatim>\<open>v || 0\<close> on a number: zero stays zero, every other number is itself.\<close>

definition orZero :: "real \<Rightarrow> real" where
  "orZero v = (if v = 0 then 0 else v)"

text \<open>
  \<^verbatim>\<open>mouseMovements.reduce((sum, m) => sum + (m.velocity || 0), 0) / mouseMovements.length\<close>
\<close>

definition avgVelocityOf :: "MouseData list \<Rightarrow> real" where
  "avgVelocityOf ms =
     foldl (\<lambda>sum m. sum + orZero (velocity m)) 0 ms / real (length ms)"

text \<open>
  \<^verbatim>\<open>mouseMovements.map(m => m.velocity || 0).reduce((acc, v, i, arr) =>
     i > 0 ? acc + Math.abs(v - arr[i-1]) : acc, 0) / Math.max(mouseMovements.length - 1, 1)\<close>
\<close>

definition velocityVariationOf :: "MouseData list \<Rightarrow> real" where
  "velocityVariationOf ms =
     (let arr = map (\<lambda>m. orZero (velocity m)) ms in
      foldl (\<lambda>acc i. if i > 0 then acc + \<bar>arr ! i - arr ! (i - 1)\<bar> else acc)
            0 [0..<length arr]
        / max (real (length ms) - 1) 1)"

text \<open>The block under \<^verbatim>\<open>// Mouse movement analysis\<close>, applied to the running score.\<close>

definition mouseAnalysis :: "MouseData list \<Rightarrow> real \<Rightarrow> real" where
  "mouseAnalysis ms riskScore =
     (if length ms > 0 then
        (let avgVelocity = avgVelocityOf ms;
             velocityVariation = velocityVariationOf ms;
             r1 = (if avgVelocity > 0.1 \<and> avgVelocity < 3.0 then riskScore - 0.1 else riskScore);
             r2 = (if velocityVariation > 0.5 then r1 - 0.1 else r1);
             r3 = (if avgVelocity > 10 \<or> avgVelocity = 0 then r2 + 0.2 else r2);
             r4 = (if velocityVariation < 0.1 then r3 + 0.2 else r3)
         in r4)
      else riskScore + 0.3)"

text \<open>\<^verbatim>\<open>clicks.length / Math.max(sessionDuration / 1000, 1)\<close>\<close>

definition clickFrequency :: "ClickData list \<Rightarrow> real \<Rightarrow> real" where
  "clickFrequency cs sd = real (length cs) / max (sd / 1000) 1"

definition clickAnalysis :: "ClickData list \<Rightarrow> real \<Rightarrow> real \<Rightarrow> real" where
  "clickAnalysis cs sd riskScore =
     (if length cs > 0 then
        (let cf = clickFrequency cs sd;
             r1 = (if cf > 0.1 \<and> cf < 2.0 then riskScore - 0.1 else riskScore);
             r2 = (if cf > 5.0 then r1 + 0.2 else r1)
         in r2)
      else riskScore)"

definition avgDurationOf :: "KeystrokeData list \<Rightarrow> real" where
  "avgDurationOf ks =
     foldl (\<lambda>sum k. sum + orZero (duration k)) 0 ks / real (length ks)"

definition keystrokeAnalysis :: "KeystrokeData list \<Rightarrow> real \<Rightarrow> real" where
  "keystrokeAnalysis ks riskScore =
     (if length ks > 0 then
        (let avgDuration = avgDurationOf ks;
             r1 = (if avgDuration > 50 \<and> avgDuration < 300 then riskScore - 0.1 else riskScore);
             r2 = (if avgDuration < 20 \<or> avgDuration > 500 then r1 + 0.1 else r1)
         in r2)
      else riskScore)"

definition sessionAnalysis :: "real \<Rightarrow> real \<Rightarrow> real" where
  "sessionAnalysis sd riskScore =
     (let r1 = (if sd > 5000 then riskScore - 0.1 else riskScore);
          r2 = (if sd < 1000 then r1 + 0.2 else r1)
      in r2)"

definition calculateBasicRiskScore :: "BehaviorData \<Rightarrow> real" where
  "calculateBasicRiskScore bd =
     (let r0 = 0.5;
          r1 = mouseAnalysis (mouseMovements bd) r0;
          r2 = clickAnalysis (clicks bd) (sessionDuration bd) r1;
          r3 = keystrokeAnalysis (keystrokes bd) r2;
          r4 = sessionAnalysis (sessionDuration bd) r3
      in max 0 (min 1 r4))"

text \<open>
  The original server.js names the same function \<^verbatim>\<open>calculateRiskScore\<close>; its body is
  the same text, statement for statement.
\<close>

definition calculateRiskScore :: "BehaviorData \<Rightarrow> real" where
  "calculateRiskScore bd =
     (let r0 = 0.5;
          r1 = mouseAnalysis (mouseMovements bd) r0;
          r2 = clickAnalysis (clicks bd) (sessionDuration bd) r1;
          r3 = keystrokeAnalysis (keystrokes bd) r2;
          r4 = sessionAnalysis (sessionDuration bd) r3
      in max 0 (min 1 r4))"

subsection \<open>The classifier's JSON reply and callMLService\<close>

text \<open>
  What \<^verbatim>\<open>response.json()\<close> can return. An object is its property table; a property
  that is absent reads as \<^verbatim>\<open>undefined\<close>.
\<close>

datatype js =
    JUndefined
  | JNull
  | JBool bool
  | JNum real
  | JStr string
  | JArr "js list"
  | JObj "(string \<times> js) list"

datatype js_error = FetchFailed | JsonParseFailed | MLServiceError | InvalidMLResponse | TypeError

fun truthy :: "js \<Rightarrow> bool" where
  "truthy JUndefined = False"
| "truthy JNull = False"
| "truthy (JBool b) = b"
| "truthy (JNum n) = (n \<noteq> 0)"
| "truthy (JStr s) = (s \<noteq> [])"
| "truthy (JArr xs) = True"
| "truthy (JObj kvs) = True"

text \<open>
  Property read \<^verbatim>\<open>v.k\<close> for the data property names the endpoint uses: reading from
  \<^verbatim>\<open>undefined\<close> or \<^verbatim>\<open>null\<close> throws a TypeError, and a primitive or an array has
  none of these properties.
\<close>

fun getProp :: "js \<Rightarrow> string \<Rightarrow> js_error + js" where
  "getProp JUndefined k = Inl TypeError"
| "getProp JNull k = Inl TypeError"
| "getProp (JObj kvs) k = Inr (case map_of kvs k of None \<Rightarrow> JUndefined | Some v \<Rightarrow> v)"
| "getProp v k = Inr JUndefined"

text \<open>Sequencing of steps that may throw: the first exception ends the block.\<close>

definition andThen :: "'e + 'a \<Rightarrow> ('a \<Rightarrow> 'e + 'b) \<Rightarrow> 'e + 'b" where
  "andThen m f = (case m of Inl e \<Rightarrow> Inl e | Inr a \<Rightarrow> f a)"

text \<open>\<^verbatim>\<open>v.toFixed(3)\<close> inside the log line: only a number has the method.\<close>

fun toFixed :: "js \<Rightarrow> js_error + real" where
  "toFixed (JNum n) = Inr n"
| "toFixed v = Inl TypeError"

text \<open>
  A value placed in a template literal is converted to a string. Primitives convert. An
  object made by \<^verbatim>\<open>response.json()\<close> converts through the inherited \<^verbatim>\<open>toString\<close>,
  unless it has an own property of that name: that property is never callable, and the
  inherited \<^verbatim>\<open>valueOf\<close> returns the object itself, so the conversion throws a
  TypeError. An array converts by joining its elements: \<^verbatim>\<open>undefined\<close> and \<^verbatim>\<open>null\<close>
  give the empty string, every other element is converted in the same way.
\<close>

fun stringifiable :: "js \<Rightarrow> bool" where
  "stringifiable (JArr xs) = list_all stringifiable xs"
| "stringifiable (JObj kvs) = (map_of kvs ''toString'' = None)"
| "stringifiable v = True"

definition interpolate :: "js \<Rightarrow> js_error + unit" where
  "interpolate v = (if stringifiable v then Inr () else Inl TypeError)"

text \<open>
  The outcome of \<^verbatim>\<open>fetch\<close> and \<^verbatim>\<open>response.json()\<close>: the request is rejected
  (connection refused, reset, a timeout raised by the transport), or a response arrives
  with its \<^verbatim>\<open>ok\<close> flag and a body that parses (\<open>Some\<close>) or does not (\<open>None\<close>).
\<close>

datatype fetch_outcome = FetchRejected | FetchResponse bool "js option"

fun callMLService :: "fetch_outcome \<Rightarrow> js_error + js" where
  "callMLService FetchRejected = Inl FetchFailed"
| "callMLService (FetchResponse ok None) = Inl JsonParseFailed"
| "callMLService (FetchResponse ok (Some result)) =
     (if \<not> ok then
        andThen (getProp result ''error'') (\<lambda>err.
        andThen (interpolate (if truthy err then err else JStr ''Unknown error'')) (\<lambda>_.
          Inl MLServiceError))
      else Inr result)"

subsection \<open>POST /api/captcha/validate\<close>

text \<open>
  The \<^verbatim>\<open>result\<close> object of the reply, without \<^verbatim>\<open>sessionId\<close>, \<^verbatim>\<open>timestamp\<close>,
  \<^verbatim>\<open>analysis\<close> and \<^verbatim>\<open>mlDetails\<close>, which no property below reads. The updated
  server adds \<^verbatim>\<open>method\<close> (here \<open>methodName\<close>). \<^verbatim>\<open>isHuman\<close> is a JSON value: on the classifier path it
  is whatever \<^verbatim>\<open>prediction.is_human\<close> holds.
\<close>

record Verdict =
  isHuman :: js
  riskScore :: real
  confidence :: real
  needsChallenge :: bool

record Assessment = Verdict +
  methodName :: string

datatype http_error = Status400 | Status500

text \<open>
  The inner \<^verbatim>\<open>try\<close> block: the classifier's verdict \<open>(is_human, risk_score, confidence)\<close>
  or the exception that the \<^verbatim>\<open>catch (mlError)\<close> receives. The condition
  \<^verbatim>\<open>mlResponse.success && mlResponse.prediction\<close> has the value of its left operand
  when that is falsy; the log line converts \<^verbatim>\<open>isHuman\<close> to a string and calls
  \<^verbatim>\<open>toFixed\<close> on the score and on the confidence, in that order.
\<close>

definition tryMLService :: "fetch_outcome \<Rightarrow> js_error + (js \<times> real \<times> real)" where
  "tryMLService fo =
     andThen (callMLService fo) (\<lambda>mlResponse.
     andThen (getProp mlResponse ''success'') (\<lambda>s.
     andThen (if truthy s then getProp mlResponse ''prediction'' else Inr s) (\<lambda>cond.
       if truthy cond then
         (let mlResult = cond in
          andThen (getProp mlResult ''is_human'') (\<lambda>h.
          andThen (getProp mlResult ''risk_score'') (\<lambda>rs.
          andThen (getProp mlResult ''confidence'') (\<lambda>cf.
          andThen (interpolate h) (\<lambda>_.
          andThen (toFixed rs) (\<lambda>r.
          andThen (toFixed cf) (\<lambda>c.
            Inr (h, r, c))))))))
       else Inl InvalidMLResponse)))"

text \<open>The tail of the handler: \<^verbatim>\<open>needsChallenge\<close> and the result object.\<close>

definition respond :: "js \<Rightarrow> real \<Rightarrow> real \<Rightarrow> string \<Rightarrow> Assessment" where
  "respond h r c m =
     \<lparr>isHuman = h, riskScore = r, confidence = c,
      needsChallenge = (r > 0.7 \<or> c < 0.4), methodName = m\<rparr>"

text \<open>The \<^verbatim>\<open>catch (mlError)\<close> branch.\<close>

definition fallback :: "BehaviorData \<Rightarrow> Assessment" where
  "fallback bd =
     (let r = calculateBasicRiskScore bd
      in respond (JBool (r < 0.6)) r (\<bar>0.5 - r\<bar> * 2) ''fallback_algorithm'')"

definition validate :: "fetch_outcome \<Rightarrow> BehaviorData option \<Rightarrow> http_error + Assessment" where
  "validate fo body =
     (case body of
        None \<Rightarrow> Inl Status400
      | Some bd \<Rightarrow>
          (case tryMLService fo of
             Inr (h, r, c) \<Rightarrow> Inr (respond h r c ''ml_model'')
           | Inl mlError \<Rightarrow> Inr (fallback bd)))"

text \<open>The original server.js: no classifier, the rule-based score on every request.\<close>

definition validate_original :: "BehaviorData option \<Rightarrow> http_error + Verdict" where
  "validate_original body =
     (case body of
        None \<Rightarrow> Inl Status400
      | Some bd \<Rightarrow>
          (let r = calculateRiskScore bd
           in Inr \<lparr>isHuman = JBool (r < 0.6), riskScore = r, confidence = \<bar>0.5 - r\<bar> * 2,
                   needsChallenge = (r > 0.7 \<or> \<bar>0.5 - r\<bar> * 2 < 0.4)\<rparr>))"

text \<open>Scenario A of the specification.\<close>

definition scenarioA :: BehaviorData where
  "scenarioA = \<lparr>mouseMovements = [], clicks = [], keystrokes = [],
                 sessionDuration = 500, pageVisible = True\<rparr>"

text \<open>
  Declarative readings of a classifier reply. \<open>field\<close> is the total property read
  (absent, or read from something that is not an object: \<^verbatim>\<open>undefined\<close>).
  \<open>usableReply\<close> lists what the handler needs to take the classifier path;
  \<open>spec_wellFormed\<close> is the specification's notion of a well-formed verdict: a
  Boolean \<^verbatim>\<open>isHuman\<close>, and a score and a confidence that are numbers in \<open>[0,1]\<close>.
\<close>

fun field :: "js \<Rightarrow> string \<Rightarrow> js" where
  "field (JObj kvs) k = (case map_of kvs k of None \<Rightarrow> JUndefined | Some v \<Rightarrow> v)"
| "field v k = JUndefined"

fun isNum :: "js \<Rightarrow> bool" where
  "isNum (JNum n) = True"
| "isNum v = False"

fun isBool :: "js \<Rightarrow> bool" where
  "isBool (JBool b) = True"
| "isBool v = False"

fun inUnit :: "js \<Rightarrow> bool" where
  "inUnit (JNum n) = (0 \<le> n \<and> n \<le> 1)"
| "inUnit v = False"

definition usableReply :: "js \<Rightarrow> bool" where
  "usableReply reply =
     (truthy (field reply ''success'') \<and> truthy (field reply ''prediction'') \<and>
      stringifiable (field (field reply ''prediction'') ''is_human'') \<and>
      isNum (field (field reply ''prediction'') ''risk_score'') \<and>
      isNum (field (field reply ''prediction'') ''confidence''))"

text \<open>The number a JSON number holds (used only where the value is known to be one).\<close>

fun numberOf :: "js \<Rightarrow> real" where
  "numberOf (JNum n) = n"
| "numberOf v = 0"

definition spec_wellFormed :: "js \<Rightarrow> bool" where
  "spec_wellFormed prediction =
     (isBool (field prediction ''is_human'') \<and>
      inUnit (field prediction ''risk_score'') \<and>
      inUnit (field prediction ''confidence''))"

text \<open>Two classifier replies used as concrete inputs below.\<close>

definition confidentReply :: js where
  "confidentReply =
     JObj [(''success'', JBool True),
           (''prediction'', JObj [(''is_human'', JBool True),
                                  (''risk_score'', JNum 0.2),
                                  (''confidence'', JNum 0.9)])]"

definition outOfRangePrediction :: js where
  "outOfRangePrediction = JObj [(''risk_score'', JNum 5), (''confidence'', JNum 7)]"

text \<open>A prediction whose \<^verbatim>\<open>is_human\<close> is an object with an own \<^verbatim>\<open>toString\<close> property.\<close>

definition unprintableReply :: js where
  "unprintableReply =
     JObj [(''success'', JBool True),
           (''prediction'', JObj [(''is_human'', JObj [(''toString'', JNum 1)]),
                                  (''risk_score'', JNum 0.2),
                                  (''confidence'', JNum 0.9)])]"

definition outOfRangeReply :: js where
  "outOfRangeReply =
     JObj [(''success'', JBool True), (''prediction'', outOfRangePrediction)]"

section \<open>Telemetry buffers (useBehaviorTracking.ts)\<close>

text \<open>\<^verbatim>\<open>xs.slice(-n)\<close> for \<open>n > 0\<close>: the last \<open>n\<close> elements, all of them when there are fewer.\<close>

definition slice_last :: "nat \<Rightarrow> 'a list \<Rightarrow> 'a list" where
  "slice_last n xs = drop (length xs - n) xs"

text \<open>
  The hook's state: the \<^verbatim>\<open>behaviorData\<close> state and the three refs. Clock readings
  (\<^verbatim>\<open>Date.now()\<close>) come with the events.
\<close>

record Tracker =
  behaviorData :: BehaviorData
  lastMousePos :: "real \<times> real \<times> real"
  sessionStart :: real
  keyPressStart :: "string \<rightharpoonup> real"

definition initialBehaviorData :: BehaviorData where
  "initialBehaviorData =
     \<lparr>mouseMovements = [], clicks = [], keystrokes = [], sessionDuration = 0, pageVisible = True\<rparr>"

definition initialTracker :: "real \<Rightarrow> Tracker" where
  "initialTracker now =
     \<lparr>behaviorData = initialBehaviorData, lastMousePos = (0, 0, 0),
      sessionStart = now, keyPressStart = Map.empty\<rparr>"

definition calculateVelocity :: "real \<Rightarrow> real \<Rightarrow> real \<Rightarrow> real \<Rightarrow> real \<Rightarrow> real" where
  "calculateVelocity x1 y1 x2 y2 timeDiff =
     (let distance = sqrt ((x2 - x1)\<^sup>2 + (y2 - y1)\<^sup>2)
      in if timeDiff > 0 then distance / timeDiff else 0)"

text \<open>The sample that \<^verbatim>\<open>handleMouseMove\<close> builds from the event and \<^verbatim>\<open>lastMousePos\<close>.\<close>

definition mouseSample :: "Tracker \<Rightarrow> real \<Rightarrow> real \<Rightarrow> real \<Rightarrow> MouseData" where
  "mouseSample t clientX clientY now =
     (case lastMousePos t of (lastX, lastY, lastTime) \<Rightarrow>
        (let timeDiff = now - lastTime;
             v = calculateVelocity lastX lastY clientX clientY timeDiff;
             a = (if timeDiff > 0 then v / timeDiff else 0)
         in \<lparr>mouse_x = clientX, mouse_y = clientY, mouse_timestamp = now,
             velocity = v, acceleration = a\<rparr>))"

text \<open>The three state updaters passed to \<^verbatim>\<open>setBehaviorData\<close>.\<close>

definition addMouseMovement :: "MouseData \<Rightarrow> real \<Rightarrow> BehaviorData \<Rightarrow> BehaviorData" where
  "addMouseMovement mouseData duration_now prev =
     prev\<lparr>mouseMovements := slice_last 49 (mouseMovements prev) @ [mouseData],
          sessionDuration := duration_now\<rparr>"

definition addClick :: "ClickData \<Rightarrow> BehaviorData \<Rightarrow> BehaviorData" where
  "addClick clickData prev = prev\<lparr>clicks := slice_last 19 (clicks prev) @ [clickData]\<rparr>"

definition addKeystroke :: "KeystrokeData \<Rightarrow> BehaviorData \<Rightarrow> BehaviorData" where
  "addKeystroke keystrokeData prev =
     prev\<lparr>keystrokes := slice_last 29 (keystrokes prev) @ [keystrokeData]\<rparr>"

datatype tracking_event =
    MouseMove real real real
  | Click real real real
  | KeyDown string real
  | KeyUp string real
  | VisibilityChange bool

text \<open>
  The event handlers. \<^verbatim>\<open>handleKeyUp\<close> records a keystroke only when a press time is
  stored for the key and is truthy (not zero); the second component of the event is
  the clock reading, the Boolean of \<open>VisibilityChange\<close> is \<^verbatim>\<open>document.hidden\<close>.
\<close>

fun handleEvent :: "Tracker \<Rightarrow> tracking_event \<Rightarrow> Tracker" where
  "handleEvent t (MouseMove clientX clientY now) =
     t\<lparr>behaviorData :=
          addMouseMovement (mouseSample t clientX clientY now) (now - sessionStart t)
            (behaviorData t),
       lastMousePos := (clientX, clientY, now)\<rparr>"
| "handleEvent t (Click clientX clientY now) =
     t\<lparr>behaviorData :=
          addClick \<lparr>click_x = clientX, click_y = clientY, click_timestamp = now\<rparr>
            (behaviorData t)\<rparr>"
| "handleEvent t (KeyDown k now) = t\<lparr>keyPressStart := (keyPressStart t)(k \<mapsto> now)\<rparr>"
| "handleEvent t (KeyUp k now) =
     (case keyPressStart t k of
        None \<Rightarrow> t
      | Some startTime \<Rightarrow>
          if startTime = 0 then t
          else t\<lparr>behaviorData :=
                    addKeystroke \<lparr>key = k, key_timestamp = startTime, duration = now - startTime\<rparr>
                      (behaviorData t),
                 keyPressStart := (keyPressStart t)(k := None)\<rparr>)"
| "handleEvent t (VisibilityChange hidden) =
     t\<lparr>behaviorData := (behaviorData t)\<lparr>pageVisible := \<not> hidden\<rparr>\<rparr>"

definition track :: "Tracker \<Rightarrow> tracking_event list \<Rightarrow> Tracker" where
  "track t es = foldl handleEvent t es"

text \<open>
  The samples that a run of events inserts into each buffer, in the order of insertion
  (a log kept beside the run, for stating what survives).
\<close>

fun mouseInserted :: "Tracker \<Rightarrow> tracking_event list \<Rightarrow> MouseData list" where
  "mouseInserted t [] = []"
| "mouseInserted t (e # es) =
     (case e of MouseMove clientX clientY now \<Rightarrow> [mouseSample t clientX clientY now] | _ \<Rightarrow> [])
       @ mouseInserted (handleEvent t e) es"

fun clicksInserted :: "Tracker \<Rightarrow> tracking_event list \<Rightarrow> ClickData list" where
  "clicksInserted t [] = []"
| "clicksInserted t (e # es) =
     (case e of
        Click clientX clientY now \<Rightarrow> [\<lparr>click_x = clientX, click_y = clientY, click_timestamp = now\<rparr>]
      | _ \<Rightarrow> [])
       @ clicksInserted (handleEvent t e) es"

fun keysInserted :: "Tracker \<Rightarrow> tracking_event list \<Rightarrow> KeystrokeData list" where
  "keysInserted t [] = []"
| "keysInserted t (e # es) =
     (case e of
        KeyUp k now \<Rightarrow>
          (case keyPressStart t k of
             None \<Rightarrow> []
           | Some startTime \<Rightarrow>
               if startTime = 0 then []
               else [\<lparr>key = k, key_timestamp = startTime, duration = now - startTime\<rparr>])
      | _ \<Rightarrow> [])
       @ keysInserted (handleEvent t e) es"

section \<open>Challenges\<close>

subsection \<open>POST /api/captcha/challenge (server.js, both versions)\<close>

record ChallengeSpec =
  ctype :: string
  instruction :: string
  expectedPattern :: "string option"
  sequence :: "int list option"
  expectedText :: "string option"
  timeLimit :: real

record Challenge = ChallengeSpec +
  sessionId :: string
  challengeId :: string
  timestamp :: string

text \<open>The own properties of the \<^verbatim>\<open>challenges\<close> object literal, in its order.\<close>

definition challenges :: "(string \<times> ChallengeSpec) list" where
  "challenges =
     [(''mouse-pattern'',
       \<lparr>ctype = ''mouse-pattern'', instruction = ''Draw a circle with your mouse'',
        expectedPattern = Some ''circle'', sequence = None, expectedText = None,
        timeLimit = 10000\<rparr>),
      (''click-sequence'',
       \<lparr>ctype = ''click-sequence'', instruction = ''Click the buttons in order: 1, 3, 2'',
        expectedPattern = None, sequence = Some [1, 3, 2], expectedText = None,
        timeLimit = 15000\<rparr>),
      (''typing-cadence'',
       \<lparr>ctype = ''typing-cadence'',
        instruction = ''Type: '' @ [CHR 0x22] @ ''I am human'' @ [CHR 0x22],
        expectedPattern = None, sequence = None, expectedText = Some ''I am human'',
        timeLimit = 10000\<rparr>)]"

text \<open>
  An object literal inherits the members of \<^verbatim>\<open>Object.prototype\<close>; a read of one of
  these names finds the inherited member (a function, or the prototype object itself),
  which is truthy and has no enumerable own property to spread.
\<close>

definition objectPrototypeMembers :: "string list" where
  "objectPrototypeMembers =
     [''constructor'', ''__proto__'', ''hasOwnProperty'', ''isPrototypeOf'',
      ''propertyIsEnumerable'', ''toLocaleString'', ''toString'', ''valueOf'',
      ''__defineGetter__'', ''__defineSetter__'', ''__lookupGetter__'', ''__lookupSetter__'']"

datatype member = OwnEntry ChallengeSpec | InheritedMember | NoMember

text \<open>\<^verbatim>\<open>challenges[challengeType]\<close>, the key already coerced to a string.\<close>

definition readChallenges :: "string \<Rightarrow> member" where
  "readChallenges k =
     (case map_of challenges k of
        Some c \<Rightarrow> OwnEntry c
      | None \<Rightarrow> if k \<in> set objectPrototypeMembers then InheritedMember else NoMember)"

text \<open>\<^verbatim>\<open>challenges[challengeType] || challenges['mouse-pattern']\<close>\<close>

definition chooseChallenge :: "string \<Rightarrow> member" where
  "chooseChallenge challengeType =
     (case readChallenges challengeType of
        NoMember \<Rightarrow> readChallenges ''mouse-pattern''
      | m \<Rightarrow> m)"

text \<open>
  The \<^verbatim>\<open>challenge\<close> object of the reply: the spread of the chosen member, then
  \<^verbatim>\<open>sessionId\<close>, \<^verbatim>\<open>challengeId\<close> and \<^verbatim>\<open>timestamp\<close>. The last two are texts made from
  the clock and are taken as given.
\<close>

datatype issued = IssuedChallenge Challenge | IssuedBare string string string

definition issueChallenge :: "string \<Rightarrow> string \<Rightarrow> string \<Rightarrow> string \<Rightarrow> http_error + issued" where
  "issueChallenge challengeType sid cid ts =
     (case chooseChallenge challengeType of
        OwnEntry c \<Rightarrow>
          Inr (IssuedChallenge
                 (ChallengeSpec.extend c
                    (Challenge.fields sid cid ts)))
      | _ \<Rightarrow> Inr (IssuedBare sid cid ts))"

subsection \<open>ChallengeSystem.tsx\<close>

datatype payload =
    MousePatternPayload "(real \<times> real \<times> real) list"
  | SequencePayload "int list" bool
  | TextPayload string bool

record ChallengeResponse =
  responseChallengeId :: string
  response :: payload
  completionTime :: real

text \<open>
  The component's state. \<^verbatim>\<open>mousePath\<close> and \<^verbatim>\<open>keystrokeTimings\<close> belong to the drawing
  and to the telemetry attached to a response; neither is read by a validation.
\<close>

record ChallengeSystem =
  timeLeft :: real
  isComplete :: bool
  startTime :: real
  clickSequence :: "int list"
  typedText :: string

definition mountChallengeSystem :: "Challenge \<Rightarrow> real \<Rightarrow> ChallengeSystem" where
  "mountChallengeSystem ch now =
     \<lparr>timeLeft = timeLimit ch / 1000, isComplete = False, startTime = now,
      clickSequence = [], typedText = []\<rparr>"

datatype callback = OnChallengeComplete ChallengeResponse | OnChallengeTimeout

text \<open>The updater run by the one-second interval.\<close>

definition timerTick :: "ChallengeSystem \<Rightarrow> ChallengeSystem \<times> callback option" where
  "timerTick c =
     (if timeLeft c \<le> 1 then (c\<lparr>timeLeft := 0\<rparr>, Some OnChallengeTimeout)
      else (c\<lparr>timeLeft := timeLeft c - 1\<rparr>, None))"

text \<open>
  \<^verbatim>\<open>newSequence.every((num, idx) => num === challenge.sequence![idx])\<close>: an index past
  the end of the expected sequence reads \<^verbatim>\<open>undefined\<close>, which no number equals.
\<close>

definition everyMatches :: "int list \<Rightarrow> int list \<Rightarrow> bool" where
  "everyMatches newSequence expected =
     list_all (\<lambda>idx. idx < length expected \<and> newSequence ! idx = expected ! idx)
       [0..<length newSequence]"

definition handleButtonClick ::
    "Challenge \<Rightarrow> real \<Rightarrow> int \<Rightarrow> ChallengeSystem \<Rightarrow> ChallengeSystem \<times> callback option" where
  "handleButtonClick ch now buttonNumber c =
     (let newSequence = clickSequence c @ [buttonNumber];
          c1 = c\<lparr>clickSequence := newSequence\<rparr>
      in case sequence ch of
           None \<Rightarrow> (c1, None)
         | Some expected \<Rightarrow>
             if length newSequence = length expected then
               (c1\<lparr>isComplete := True\<rparr>,
                Some (OnChallengeComplete
                       \<lparr>responseChallengeId = challengeId ch,
                        response = SequencePayload newSequence (everyMatches newSequence expected),
                        completionTime = now - startTime c\<rparr>))
             else (c1, None))"

definition handleInputChange ::
    "Challenge \<Rightarrow> real \<Rightarrow> string \<Rightarrow> ChallengeSystem \<Rightarrow> ChallengeSystem \<times> callback option" where
  "handleInputChange ch now v c =
     (let c1 = c\<lparr>typedText := v\<rparr>
      in if expectedText ch = Some v then
           (c1\<lparr>isComplete := True\<rparr>,
            Some (OnChallengeComplete
                   \<lparr>responseChallengeId = challengeId ch,
                    response = TextPayload v True,
                    completionTime = now - startTime c\<rparr>))
         else (c1, None))"

subsection \<open>CompleteCaptchaSystem.tsx\<close>

datatype captcha_state = Collecting | Analyzing | ChallengeState | Success | Failure

record CaptchaResult =
  success :: bool
  resultIsHuman :: bool
  resultConfidence :: real
  challengeRequired :: bool
  resultMethod :: string

record CaptchaSystem =
  captchaState :: captcha_state
  challenge :: "Challenge option"
  finalResult :: "CaptchaResult option"

definition initialCaptchaSystem :: CaptchaSystem where
  "initialCaptchaSystem = \<lparr>captchaState = Collecting, challenge = None, finalResult = None\<rparr>"

text \<open>\<^verbatim>\<open>response.response.correct\<close>: a payload without the property reads \<^verbatim>\<open>undefined\<close>, falsy.\<close>

fun correct :: "payload \<Rightarrow> bool" where
  "correct (SequencePayload s c) = c"
| "correct (TextPayload t c) = c"
| "correct (MousePatternPayload pts) = False"

text \<open>\<^verbatim>\<open>response.response.mousePattern && response.response.mousePattern.length > 20\<close>\<close>

fun mousePatternLongEnough :: "payload \<Rightarrow> bool" where
  "mousePatternLongEnough (MousePatternPayload pts) = (length pts > 20)"
| "mousePatternLongEnough p = False"

text \<open>
  \<^verbatim>\<open>validateChallengeResponse\<close> as a function of the \<^verbatim>\<open>challenge\<close> its closure holds;
  with \<^verbatim>\<open>null\<close> there the read \<^verbatim>\<open>challenge.type\<close> throws.
\<close>

fun validateChallengeResponse :: "Challenge option \<Rightarrow> ChallengeResponse \<Rightarrow> js_error + bool" where
  "validateChallengeResponse None r = Inl TypeError"
| "validateChallengeResponse (Some ch) r =
     Inr (if ctype ch = ''click-sequence'' then correct (response r)
          else if ctype ch = ''typing-cadence'' then correct (response r)
          else if ctype ch = ''mouse-pattern'' then mousePatternLongEnough (response r)
          else False)"

text \<open>
  \<^verbatim>\<open>handleChallengeComplete\<close>, with the \<^verbatim>\<open>challenge\<close> that the validation it calls holds.
  An exception of the validation is caught: only the state changes, to failure.
\<close>

definition handleChallengeComplete ::
    "Challenge option \<Rightarrow> CaptchaSystem \<Rightarrow> ChallengeResponse \<Rightarrow> CaptchaSystem" where
  "handleChallengeComplete held sys challengeResponse =
     (case validateChallengeResponse held challengeResponse of
        Inl e \<Rightarrow> sys\<lparr>captchaState := Failure\<rparr>
      | Inr isValidResponse \<Rightarrow>
          sys\<lparr>finalResult :=
                Some \<lparr>success = isValidResponse, resultIsHuman = isValidResponse,
                      resultConfidence = (if isValidResponse then 0.9 else 0.1),
                      challengeRequired = True, resultMethod = ''challenge_completion''\<rparr>,
              captchaState := (if isValidResponse then Success else Failure)\<rparr>)"

text \<open>
  The callback that the component passes down as \<^verbatim>\<open>onChallengeComplete\<close>.
  \<^verbatim>\<open>handleChallengeComplete\<close> is memoised by \<^verbatim>\<open>useCallback\<close> with an empty dependency
  list, so the function of the first render is the one passed on every render; the
  \<^verbatim>\<open>validateChallengeResponse\<close> it refers to is the first render's too, and that one
  closes over the first render's \<^verbatim>\<open>challenge\<close>, the initial state \<^verbatim>\<open>null\<close>.
\<close>

definition onChallengeComplete :: "CaptchaSystem \<Rightarrow> ChallengeResponse \<Rightarrow> CaptchaSystem" where
  "onChallengeComplete sys challengeResponse =
     handleChallengeComplete None sys challengeResponse"

definition handleChallengeTimeout :: "CaptchaSystem \<Rightarrow> CaptchaSystem" where
  "handleChallengeTimeout sys =
     sys\<lparr>finalResult :=
           Some \<lparr>success = False, resultIsHuman = False, resultConfidence = 0,
                 challengeRequired = True, resultMethod = ''timeout''\<rparr>,
         captchaState := Failure\<rparr>"

text \<open>
  The page: the parent's state and the state of the mounted \<^verbatim>\<open>ChallengeSystem\<close>, which
  \<^verbatim>\<open>renderState\<close> shows only in state \<^verbatim>\<open>challenge\<close> with a challenge present.
\<close>

record Page =
  system :: CaptchaSystem
  mounted :: "ChallengeSystem option"

datatype ui_event = Tick | ButtonClick int real | InputChange string real

definition rerender :: "Page \<Rightarrow> Page" where
  "rerender p =
     (if captchaState (system p) = ChallengeState \<and> challenge (system p) \<noteq> None then p
      else p\<lparr>mounted := None\<rparr>)"

text \<open>\<^verbatim>\<open>setChallenge(challengeResponse.challenge); setCaptchaState('challenge')\<close>, and the mount.\<close>

definition showChallenge :: "Challenge \<Rightarrow> real \<Rightarrow> CaptchaSystem \<Rightarrow> Page" where
  "showChallenge ch now sys =
     \<lparr>system = sys\<lparr>challenge := Some ch, captchaState := ChallengeState\<rparr>,
      mounted = Some (mountChallengeSystem ch now)\<rparr>"

text \<open>
  What an event does inside the mounted component. The buttons exist for a
  click-sequence challenge, the input for a typing-cadence one, both only until the
  response is complete.
\<close>

fun childHandle :: "Challenge \<Rightarrow> ui_event \<Rightarrow> ChallengeSystem \<Rightarrow> ChallengeSystem \<times> callback option" where
  "childHandle ch Tick c = timerTick c"
| "childHandle ch (ButtonClick b now) c =
     (if \<not> isComplete c \<and> ctype ch = ''click-sequence'' then handleButtonClick ch now b c
      else (c, None))"
| "childHandle ch (InputChange v now) c =
     (if \<not> isComplete c \<and> ctype ch = ''typing-cadence'' then handleInputChange ch now v c
      else (c, None))"

fun deliver :: "callback option \<Rightarrow> CaptchaSystem \<Rightarrow> CaptchaSystem" where
  "deliver None sys = sys"
| "deliver (Some OnChallengeTimeout) sys = handleChallengeTimeout sys"
| "deliver (Some (OnChallengeComplete r)) sys = onChallengeComplete sys r"

definition step :: "Page \<Rightarrow> ui_event \<Rightarrow> Page" where
  "step p ev =
     (case mounted p of
        None \<Rightarrow> p
      | Some c \<Rightarrow>
          (case challenge (system p) of
             None \<Rightarrow> p
           | Some ch \<Rightarrow>
               (case childHandle ch ev c of
                  (c', cb) \<Rightarrow> rerender \<lparr>system = deliver cb (system p), mounted = Some c'\<rparr>)))"

definition run :: "Page \<Rightarrow> ui_event list \<Rightarrow> Page" where
  "run p evs = foldl step p evs"

text \<open>
  Whether an event makes the mounted component hand a completed response to its parent,
  and whether some event of a run does.
\<close>

definition completes :: "Page \<Rightarrow> ui_event \<Rightarrow> bool" where
  "completes p ev =
     (case mounted p of
        None \<Rightarrow> False
      | Some c \<Rightarrow>
          (case challenge (system p) of
             None \<Rightarrow> False
           | Some ch \<Rightarrow>
               (case snd (childHandle ch ev c) of
                  Some (OnChallengeComplete r) \<Rightarrow> True
                | _ \<Rightarrow> False)))"

fun responseCompleted :: "Page \<Rightarrow> ui_event list \<Rightarrow> bool" where
  "responseCompleted p [] = False"
| "responseCompleted p (ev # evs) = (completes p ev \<or> responseCompleted (step p ev) evs)"

text \<open>
  A session with the typing challenge in which the user types part of the text while
  the countdown runs: two ticks, the input \<open>I am\<close> at 2500 ms, eight more ticks.
\<close>

definition partialTyping :: "ui_event list" where
  "partialTyping = replicate 2 Tick @ [InputChange ''I am'' 2500] @ replicate 8 Tick"

text \<open>The challenges of the server, as issued to a session.\<close>

definition clickChallenge :: Challenge where
  "clickChallenge =
     \<lparr>ctype = ''click-sequence'', instruction = ''Click the buttons in order: 1, 3, 2'',
      expectedPattern = None, sequence = Some [1, 3, 2], expectedText = None,
      timeLimit = 15000, sessionId = ''s'', challengeId = ''challenge_0'', timestamp = ''t''\<rparr>"

definition typingChallenge :: Challenge where
  "typingChallenge =
     \<lparr>ctype = ''typing-cadence'',
      instruction = ''Type: '' @ [CHR 0x22] @ ''I am human'' @ [CHR 0x22],
      expectedPattern = None, sequence = None, expectedText = Some ''I am human'',
      timeLimit = 10000, sessionId = ''s'', challengeId = ''challenge_0'', timestamp = ''t''\<rparr>"

section \<open>KeystrokeAnalyzer.tsx: typing pattern detection\<close>

datatype typing_pattern = HuntPeck | TouchTyping | Hybrid | BotLike | InsufficientData

definition dwellTimes :: "KeystrokeData list \<Rightarrow> real list" where
  "dwellTimes ks = filter (\<lambda>d. d > 0 \<and> d < 1000) (map duration ks)"

definition average :: "real list \<Rightarrow> real" where
  "average ts = (if length ts > 0 then foldl (\<lambda>sum time. sum + time) 0 ts / real (length ts) else 0)"

definition averageDwellTime :: "KeystrokeData list \<Rightarrow> real" where
  "averageDwellTime ks = average (dwellTimes ks)"

text \<open>The loop \<^verbatim>\<open>for (let i = 1; i < keystrokes.length; i++)\<close> that collects flight times.\<close>

definition flightTimes :: "KeystrokeData list \<Rightarrow> real list" where
  "flightTimes ks =
     concat (map (\<lambda>i. let flightTime =
                            key_timestamp (ks ! i)
                              - (key_timestamp (ks ! (i - 1)) + duration (ks ! (i - 1)))
                      in if flightTime \<ge> 0 \<and> flightTime < 2000 then [flightTime] else [])
                 [1..<length ks])"

definition averageFlightTime :: "KeystrokeData list \<Rightarrow> real" where
  "averageFlightTime ks = average (flightTimes ks)"

definition rhythmVariability :: "KeystrokeData list \<Rightarrow> real" where
  "rhythmVariability ks =
     (let fs = flightTimes ks in
      if length fs > 1 then
        (let mean = averageFlightTime ks;
             variance = foldl (\<lambda>sum time. sum + (time - mean)\<^sup>2) 0 fs / real (length fs)
         in sqrt variance)
      else 0)"

definition typingPattern :: "KeystrokeData list \<Rightarrow> typing_pattern" where
  "typingPattern ks =
     (if length ks = 0 then InsufficientData
      else if length ks > 10 then
        (let avgDwell = averageDwellTime ks;
             avgFlight = averageFlightTime ks;
             rhythm = rhythmVariability ks
         in if avgDwell < 30 \<and> avgFlight < 100 \<and> rhythm < 50 then BotLike
            else if avgDwell > 200 \<or> avgFlight > 500 \<or> rhythm > 300 then HuntPeck
            else if avgDwell < 100 \<and> avgFlight < 200 \<and> rhythm < 100 then TouchTyping
            else Hybrid)
      else InsufficientData)"

text \<open>Ten keystrokes of one key, pressed every 200 ms and held for 80 ms.\<close>

definition tenKeystrokes :: "KeystrokeData list" where
  "tenKeystrokes =
     map (\<lambda>i. \<lparr>key = ''a'', key_timestamp = 200 * real i, duration = 80\<rparr>) [0..<10]"

text \<open>
  Eleven keystrokes of one key, pressed every 70 ms and held for 20 ms: every flight
  time is 50 ms.
\<close>

definition elevenFast :: "KeystrokeData list" where
  "elevenFast =
     map (\<lambda>i. \<lparr>key = ''a'', key_timestamp = 70 * real i, duration = 20\<rparr>) [0..<11]"

section \<open>Concrete sessions and the specification's invariant\<close>

text \<open>The invariant of the specification's data model: \<open>confidence = |0.5 - riskScore| * 2\<close>.\<close>

definition spec_confidenceInvariant :: "'a Verdict_scheme \<Rightarrow> bool" where
  "spec_confidenceInvariant a = (confidence a = \<bar>0.5 - riskScore a\<bar> * 2)"

text \<open>A session that has just been shown the click-sequence or the typing challenge, at time 0.\<close>

definition clickPage :: Page where
  "clickPage = showChallenge clickChallenge 0 initialCaptchaSystem"

definition typingPage :: Page where
  "typingPage = showChallenge typingChallenge 0 initialCaptchaSystem"

text \<open>The component after the buttons 1 and 3 have been pressed.\<close>

definition pressedOneThree :: ChallengeSystem where
  "pressedOneThree =
     \<lparr>timeLeft = 15, isComplete = False, startTime = 0, clickSequence = [1, 3], typedText = []\<rparr>"

text \<open>The correct text, completed 10001 ms after the challenge with the 10000 ms limit was shown.\<close>

definition lateResponse :: ChallengeResponse where
  "lateResponse =
     \<lparr>responseChallengeId = ''challenge_0'', response = TextPayload ''I am human'' True,
      completionTime = 10001\<rparr>"

definition timeoutResult :: CaptchaResult where
  "timeoutResult =
     \<lparr>success = False, resultIsHuman = False, resultConfidence = 0,
      challengeRequired = True, resultMethod = ''timeout''\<rparr>"

definition mousePatternSpec :: ChallengeSpec where
  "mousePatternSpec =
     \<lparr>ctype = ''mouse-pattern'', instruction = ''Draw a circle with your mouse'',
      expectedPattern = Some ''circle'', sequence = None, expectedText = None,
      timeLimit = 10000\<rparr>"

text \<open>The component after the buttons 1 and 2 have been pressed.\<close>

definition pressedOneTwo :: ChallengeSystem where
  "pressedOneTwo =
     \<lparr>timeLeft = 15, isComplete = False, startTime = 0, clickSequence = [1, 2], typedText = []\<rparr>"

definition responseOneThreeTwo :: ChallengeResponse where
  "responseOneThreeTwo =
     \<lparr>responseChallengeId = ''challenge_0'', response = SequencePayload [1, 3, 2] True,
      completionTime = 300\<rparr>"

definition responseOneTwoThree :: ChallengeResponse where
  "responseOneTwoThree =
     \<lparr>responseChallengeId = ''challenge_0'', response = SequencePayload [1, 2, 3] False,
      completionTime = 300\<rparr>"

definition oneClick :: "ClickData list" where
  "oneClick = [\<lparr>click_x = 10, click_y = 20, click_timestamp = 100\<rparr>]"

text \<open>A session of 100 ms with that one click and nothing else: ten clicks per second.\<close>

definition quickClick :: BehaviorData where
  "quickClick =
     \<lparr>mouseMovements = [], clicks = oneClick, keystrokes = [], sessionDuration = 100,
      pageVisible = True\<rparr>"

section \<open>Properties of the fallback scorer and the validation endpoint\<close>

lemma calculateBasicRiskScore_scenarioA: "calculateBasicRiskScore scenarioA = 1"
  by (simp add: calculateBasicRiskScore_def scenarioA_def mouseAnalysis_def clickAnalysis_def
      keystrokeAnalysis_def sessionAnalysis_def)

lemma calculateRiskScore_eq: "calculateRiskScore bd = calculateBasicRiskScore bd"
  by (simp add: calculateRiskScore_def calculateBasicRiskScore_def)

lemma fallback_scenarioA:
  "fallback scenarioA =
     \<lparr>isHuman = JBool False, riskScore = 1, confidence = 1, needsChallenge = True,
      methodName = ''fallback_algorithm''\<rparr>"
  by (simp add: fallback_def respond_def calculateBasicRiskScore_scenarioA)

lemma calculateBasicRiskScore_bounds:
  "0 \<le> calculateBasicRiskScore bd \<and> calculateBasicRiskScore bd \<le> 1"
  by (simp add: calculateBasicRiskScore_def Let_def)

lemma confidence_bounds:
  fixes r :: real
  assumes "0 \<le> r" and "r \<le> 1"
  shows "0 \<le> \<bar>0.5 - r\<bar> * 2 \<and> \<bar>0.5 - r\<bar> * 2 \<le> 1"
  using assms by (auto simp: abs_if)

lemma fallback_fields:
  "riskScore (fallback bd) = calculateBasicRiskScore bd \<and>
   isHuman (fallback bd) = JBool (calculateBasicRiskScore bd < 0.6) \<and>
   confidence (fallback bd) = \<bar>0.5 - calculateBasicRiskScore bd\<bar> * 2 \<and>
   needsChallenge (fallback bd) =
     (calculateBasicRiskScore bd > 0.7 \<or> \<bar>0.5 - calculateBasicRiskScore bd\<bar> * 2 < 0.4) \<and>
   methodName (fallback bd) = ''fallback_algorithm''"
  by (simp add: fallback_def respond_def Let_def)

lemma tryMLService_rejected: "tryMLService FetchRejected = Inl FetchFailed"
  by (simp add: tryMLService_def andThen_def)

lemma validate_fallback:
  "tryMLService fo = Inl e \<Longrightarrow> validate fo (Some bd) = Inr (fallback bd)"
  by (simp add: validate_def)

lemma validate_ml:
  "tryMLService fo = Inr (h, r, c) \<Longrightarrow> validate fo (Some bd) = Inr (respond h r c ''ml_model'')"
  by (simp add: validate_def)

lemma tryMLService_call_error: "callMLService fo = Inl e \<Longrightarrow> tryMLService fo = Inl e"
  by (simp add: tryMLService_def andThen_def)

lemma callMLService_not_ok: "\<exists>e. callMLService (FetchResponse False (Some result)) = Inl e"
  by (cases "getProp result ''error''") (simp_all add: andThen_def interpolate_def)

lemma callMLService_error_iff:
  "(\<exists>e. callMLService fo = Inl e) =
     (fo = FetchRejected \<or> (\<exists>ok. fo = FetchResponse ok None) \<or>
      (\<exists>result. fo = FetchResponse False (Some result)))"
proof (cases fo)
  case FetchRejected
  then show ?thesis by simp
next
  case (FetchResponse ok body)
  then show ?thesis
    using callMLService_not_ok by (cases body; cases ok) auto
qed

lemma getProp_truthy: "truthy v \<Longrightarrow> getProp v k = Inr (field v k)"
  by (cases v) auto

lemma tryMLService_prediction:
  assumes "callMLService fo = Inr reply"
    and "truthy (field reply ''success'')" and "truthy (field reply ''prediction'')"
  shows "tryMLService fo =
           andThen (interpolate (field (field reply ''prediction'') ''is_human'')) (\<lambda>_.
           andThen (toFixed (field (field reply ''prediction'') ''risk_score'')) (\<lambda>r.
           andThen (toFixed (field (field reply ''prediction'') ''confidence'')) (\<lambda>c.
             Inr (field (field reply ''prediction'') ''is_human'', r, c))))"
proof -
  have r: "truthy reply"
    using assms(2) by (cases reply) auto
  show ?thesis
    using assms getProp_truthy [OF r] getProp_truthy [OF assms(3)]
    by (simp add: tryMLService_def andThen_def Let_def)
qed

lemma tryMLService_falsy:
  assumes "callMLService fo = Inr reply"
    and "\<not> (truthy (field reply ''success'') \<and> truthy (field reply ''prediction''))"
  shows "\<exists>e. tryMLService fo = Inl e"
proof (cases "truthy reply")
  case False
  then show ?thesis
    using assms(1) by (cases reply) (simp_all add: tryMLService_def andThen_def)
next
  case True
  show ?thesis
    using assms getProp_truthy [OF True]
    by (auto simp: tryMLService_def andThen_def)
qed

lemma tryMLService_usable:
  assumes "callMLService fo = Inr reply" and "usableReply reply"
  shows "tryMLService fo =
           Inr (field (field reply ''prediction'') ''is_human'',
                numberOf (field (field reply ''prediction'') ''risk_score''),
                numberOf (field (field reply ''prediction'') ''confidence''))"
proof -
  let ?p = "field reply ''prediction''"
  have u: "truthy (field reply ''success'')" "truthy ?p"
    "stringifiable (field ?p ''is_human'')"
    "isNum (field ?p ''risk_score'')" "isNum (field ?p ''confidence'')"
    using assms(2) by (simp_all add: usableReply_def)
  obtain r where r: "field ?p ''risk_score'' = JNum r"
    using u(4) by (cases "field ?p ''risk_score''") auto
  obtain c where c: "field ?p ''confidence'' = JNum c"
    using u(5) by (cases "field ?p ''confidence''") auto
  show ?thesis
    using tryMLService_prediction [OF assms(1) u(1) u(2)] u(3) r c
    by (simp add: andThen_def interpolate_def)
qed

lemma tryMLService_reply:
  assumes "callMLService fo = Inr reply"
  shows "(\<exists>e. tryMLService fo = Inl e) = (\<not> usableReply reply)"
proof (cases "usableReply reply")
  case True
  then show ?thesis
    using tryMLService_usable [OF assms] by simp
next
  case False
  show ?thesis
  proof (cases "truthy (field reply ''success'') \<and> truthy (field reply ''prediction'')")
    case f: False
    then show ?thesis
      using tryMLService_falsy [OF assms] False by blast
  next
    case t: True
    let ?p = "field reply ''prediction''"
    have "\<not> stringifiable (field ?p ''is_human'') \<or> \<not> isNum (field ?p ''risk_score'') \<or>
          \<not> isNum (field ?p ''confidence'')"
      using False t by (simp add: usableReply_def)
    then have "\<exists>e. tryMLService fo = Inl e"
      using tryMLService_prediction [OF assms] t
      by (cases "field ?p ''risk_score''"; cases "field ?p ''confidence''")
         (auto simp: andThen_def interpolate_def)
    then show ?thesis
      using False by simp
  qed
qed

lemma tryMLService_confidentReply:
  "tryMLService (FetchResponse True (Some confidentReply)) = Inr (JBool True, 0.2, 0.9)"
  by (simp add: tryMLService_def andThen_def interpolate_def confidentReply_def)

text \<open>
  C1 (as stated, refuted). The claim is that every assessment of the validation
  endpoint, on the classifier path as well, has \<open>confidence = |0.5 - riskScore| * 2\<close>.
  When the classifier answers with score 0.2 and confidence 0.9, the endpoint returns
  that confidence with method \<open>ml_model\<close>; the formula would give 0.6.
\<close>

theorem classifier_confidence_not_derived:
  "validate (FetchResponse True (Some confidentReply)) (Some scenarioA) =
     Inr \<lparr>isHuman = JBool True, riskScore = 0.2, confidence = 0.9, needsChallenge = False,
          methodName = ''ml_model''\<rparr>
   \<and> \<not> spec_confidenceInvariant
         \<lparr>isHuman = JBool True, riskScore = 0.2, confidence = 0.9, needsChallenge = False,
          methodName = ''ml_model''\<rparr>"
  by (simp add: validate_def tryMLService_confidentReply respond_def spec_confidenceInvariant_def)

text \<open>
  C1 (amended). Every assessment of the validation endpoint has method
  \<open>fallback_algorithm\<close> or \<open>ml_model\<close>. With \<open>fallback_algorithm\<close> its confidence is
  \<open>|0.5 - riskScore| * 2\<close>; with \<open>ml_model\<close> the score and the confidence are the ones the
  classifier reported. The original endpoint, which has no classifier, satisfies the
  formula on every request.
\<close>

theorem confidence_by_method:
  assumes "validate fo body = Inr a"
  shows "(methodName a = ''fallback_algorithm'' \<or> methodName a = ''ml_model'') \<and>
         (methodName a = ''fallback_algorithm'' \<longrightarrow> spec_confidenceInvariant a) \<and>
         (methodName a = ''ml_model'' \<longrightarrow> (\<exists>h. tryMLService fo = Inr (h, riskScore a, confidence a))) \<and>
         (\<exists>v. validate_original (Some bd) = Inr v \<and> spec_confidenceInvariant v)"
  using assms
  by (auto simp: validate_def validate_original_def fallback_def respond_def Let_def
      spec_confidenceInvariant_def split: option.splits sum.splits)

theorem confidence_by_method_witness:
  "validate FetchRejected (Some scenarioA) = Inr (fallback scenarioA) \<and>
   methodName (fallback scenarioA) = ''fallback_algorithm'' \<and>
   spec_confidenceInvariant (fallback scenarioA) \<and>
   validate (FetchResponse True (Some confidentReply)) (Some scenarioA) =
     Inr (respond (JBool True) 0.2 0.9 ''ml_model'') \<and>
   (\<exists>h. tryMLService (FetchResponse True (Some confidentReply)) = Inr (h, 0.2, 0.9))"
proof -
  have f: "validate FetchRejected (Some scenarioA) = Inr (fallback scenarioA)"
    by (rule validate_fallback [OF tryMLService_rejected])
  have m: "validate (FetchResponse True (Some confidentReply)) (Some scenarioA) =
             Inr (respond (JBool True) 0.2 0.9 ''ml_model'')"
    by (rule validate_ml [OF tryMLService_confidentReply])
  from confidence_by_method [OF f] confidence_by_method [OF m] f m
  show ?thesis
    by (simp add: fallback_scenarioA respond_def)
qed

text \<open>
  C2. For \<open>behaviorData = {mouseMovements: [], clicks: [], keystrokes: [],
  sessionDuration: 500}\<close> the fallback scorer returns \<open>clamp(0.5 + 0.3 + 0.2) = 1\<close>, and
  the assessment built from it has \<open>isHuman = false\<close>, \<open>confidence = 1\<close> and
  \<open>needsChallenge = true\<close>: on the fallback path of the updated endpoint (here with the
  classifier unreachable) and on the original endpoint.
\<close>

theorem scenarioA_fallback_assessment:
  "calculateBasicRiskScore scenarioA = max 0 (min 1 (0.5 + 0.3 + 0.2)) \<and>
   calculateBasicRiskScore scenarioA = 1 \<and>
   validate FetchRejected (Some scenarioA) =
     Inr \<lparr>isHuman = JBool False, riskScore = 1, confidence = 1, needsChallenge = True,
          methodName = ''fallback_algorithm''\<rparr> \<and>
   validate_original (Some scenarioA) =
     Inr \<lparr>isHuman = JBool False, riskScore = 1, confidence = 1, needsChallenge = True\<rparr>"
  by (simp add: validate_fallback [OF tryMLService_rejected] fallback_scenarioA
      validate_original_def calculateRiskScore_eq calculateBasicRiskScore_scenarioA)

text \<open>
  C3. For every \<open>behaviorData\<close> (any motion, click and keystroke samples, any
  \<open>sessionDuration\<close>) the score of the fallback scorer lies in \<open>[0,1]\<close>, and so does the
  confidence derived from it, in the updated endpoint's fallback and in the original
  endpoint.
\<close>

theorem fallback_score_and_confidence_in_unit_interval:
  "0 \<le> calculateBasicRiskScore bd \<and> calculateBasicRiskScore bd \<le> 1 \<and>
   riskScore (fallback bd) = calculateBasicRiskScore bd \<and>
   0 \<le> confidence (fallback bd) \<and> confidence (fallback bd) \<le> 1 \<and>
   0 \<le> calculateRiskScore bd \<and> calculateRiskScore bd \<le> 1 \<and>
   (\<exists>v. validate_original (Some bd) = Inr v \<and> riskScore v = calculateRiskScore bd \<and>
        0 \<le> confidence v \<and> confidence v \<le> 1)"
  using calculateBasicRiskScore_bounds [of bd]
    confidence_bounds [of "calculateBasicRiskScore bd"]
  by (simp add: fallback_fields calculateRiskScore_eq validate_original_def Let_def)

text \<open>
  C4 (as stated, refuted). The claim is that an ill-formed classifier reply makes the
  endpoint run the fallback. A reply whose prediction has no \<open>is_human\<close>, score 5 and
  confidence 7 is not well-formed in the specification's sense, yet the endpoint takes
  it as the verdict, with method \<open>ml_model\<close>.
\<close>

theorem ill_formed_reply_accepted:
  "\<not> spec_wellFormed outOfRangePrediction \<and>
   validate (FetchResponse True (Some outOfRangeReply)) (Some scenarioA) =
     Inr \<lparr>isHuman = JUndefined, riskScore = 5, confidence = 7, needsChallenge = True,
          methodName = ''ml_model''\<rparr> \<and>
   validate (FetchResponse True (Some outOfRangeReply)) (Some scenarioA) \<noteq>
     Inr (fallback scenarioA)"
  by (simp add: spec_wellFormed_def outOfRangePrediction_def outOfRangeReply_def validate_def
      tryMLService_def andThen_def interpolate_def respond_def fallback_scenarioA)

text \<open>
  C4 (amended). If the classifier call throws (the request is rejected or times out in
  the transport, the status is not OK, the body does not parse), or if its reply cannot
  be used by the handler (\<open>success\<close> or \<open>prediction\<close> is falsy, \<open>risk_score\<close> or
  \<open>confidence\<close> of the prediction is not a number, or \<open>is_human\<close> cannot be converted to
  a string for the log line), the endpoint answers with the deterministic fallback: the
  score of \<open>calculateBasicRiskScore\<close>, \<open>isHuman = riskScore < 0.6\<close>,
  \<open>confidence = |0.5 - riskScore| * 2\<close>, method \<open>fallback_algorithm\<close>. Every other reply
  is taken as the verdict, with method \<open>ml_model\<close>: \<open>is_human\<close>, \<open>risk_score\<close> and
  \<open>confidence\<close> are returned as sent, with no check that \<open>is_human\<close> is a Boolean or that
  the numbers lie in \<open>[0,1]\<close>. With behaviour data present the endpoint always answers
  with an assessment, so no classifier error reaches the caller.
\<close>

theorem classifier_failure_recovers_by_fallback:
  "(fo = FetchRejected \<or> fo = FetchResponse ok None \<or>
    fo = FetchResponse False (Some reply) \<or>
    (fo = FetchResponse True (Some reply) \<and> \<not> usableReply reply)
      \<longrightarrow> validate fo (Some bd) = Inr (fallback bd)) \<and>
   riskScore (fallback bd) = calculateBasicRiskScore bd \<and>
   isHuman (fallback bd) = JBool (calculateBasicRiskScore bd < 0.6) \<and>
   confidence (fallback bd) = \<bar>0.5 - calculateBasicRiskScore bd\<bar> * 2 \<and>
   methodName (fallback bd) = ''fallback_algorithm'' \<and>
   (fo = FetchResponse True (Some reply) \<and> usableReply reply
      \<longrightarrow> validate fo (Some bd) =
            Inr (respond (field (field reply ''prediction'') ''is_human'')
                         (numberOf (field (field reply ''prediction'') ''risk_score''))
                         (numberOf (field (field reply ''prediction'') ''confidence''))
                         ''ml_model'')) \<and>
   (\<exists>a. validate fo (Some bd) = Inr a)"
proof -
  have failure: "validate fo (Some bd) = Inr (fallback bd)"
    if "fo = FetchRejected \<or> fo = FetchResponse ok None \<or>
        fo = FetchResponse False (Some reply) \<or>
        (fo = FetchResponse True (Some reply) \<and> \<not> usableReply reply)"
  proof -
    have "(\<exists>e. callMLService fo = Inl e) \<or>
          (callMLService fo = Inr reply \<and> \<not> usableReply reply)"
      using that callMLService_not_ok [of reply] by auto
    then have "\<exists>e'. tryMLService fo = Inl e'"
      using tryMLService_call_error tryMLService_reply by blast
    then show ?thesis
      using validate_fallback by blast
  qed
  have accepted:
    "validate fo (Some bd) =
       Inr (respond (field (field reply ''prediction'') ''is_human'')
                    (numberOf (field (field reply ''prediction'') ''risk_score''))
                    (numberOf (field (field reply ''prediction'') ''confidence''))
                    ''ml_model'')"
    if "fo = FetchResponse True (Some reply) \<and> usableReply reply"
  proof -
    have "callMLService fo = Inr reply"
      using that by simp
    from tryMLService_usable [OF this] that show ?thesis
      by (simp add: validate_ml)
  qed
  have total: "\<exists>a. validate fo (Some bd) = Inr a"
    by (simp add: validate_def split: sum.splits)
  show ?thesis
    using failure accepted total fallback_fields [of bd] by blast
qed

theorem classifier_failure_recovers_by_fallback_witness:
  "validate FetchRejected (Some scenarioA) = Inr (fallback scenarioA) \<and>
   validate (FetchResponse False (Some (JObj [(''error'', JStr ''model not trained'')])))
       (Some scenarioA) = Inr (fallback scenarioA) \<and>
   \<not> usableReply (JObj [(''success'', JBool False)]) \<and>
   validate (FetchResponse True (Some (JObj [(''success'', JBool False)]))) (Some scenarioA) =
     Inr (fallback scenarioA) \<and>
   \<not> usableReply unprintableReply \<and>
   validate (FetchResponse True (Some unprintableReply)) (Some scenarioA) =
     Inr (fallback scenarioA) \<and>
   methodName (fallback scenarioA) = ''fallback_algorithm'' \<and>
   usableReply confidentReply \<and>
   validate (FetchResponse True (Some confidentReply)) (Some scenarioA) =
     Inr (respond (JBool True) 0.2 0.9 ''ml_model'')"
proof -
  let ?err = "JObj [(''error'', JStr ''model not trained'')]"
  let ?bad = "JObj [(''success'', JBool False)]"
  have u: "\<not> usableReply ?bad"
    by (simp add: usableReply_def)
  have v: "\<not> usableReply unprintableReply"
    by (simp add: usableReply_def unprintableReply_def)
  have w: "usableReply confidentReply"
    by (simp add: usableReply_def confidentReply_def)
  have f: "field (field confidentReply ''prediction'') ''is_human'' = JBool True"
    "numberOf (field (field confidentReply ''prediction'') ''risk_score'') = 0.2"
    "numberOf (field (field confidentReply ''prediction'') ''confidence'') = 0.9"
    by (simp_all add: confidentReply_def)
  from classifier_failure_recovers_by_fallback [of FetchRejected True JNull scenarioA]
    classifier_failure_recovers_by_fallback [of "FetchResponse False (Some ?err)" True ?err scenarioA]
    classifier_failure_recovers_by_fallback [of "FetchResponse True (Some ?bad)" True ?bad scenarioA]
    classifier_failure_recovers_by_fallback
      [of "FetchResponse True (Some unprintableReply)" True unprintableReply scenarioA]
    classifier_failure_recovers_by_fallback
      [of "FetchResponse True (Some confidentReply)" True confidentReply scenarioA]
    u v w f
  show ?thesis
    by simp
qed

lemma clickAnalysis_short_session:
  assumes "cs \<noteq> []" and "sd < 1000"
  shows "clickAnalysis cs sd r =
           (if length cs = 1 then r - 0.1 else if 5 < length cs then r + 0.2 else r)"
proof -
  have cf: "clickFrequency cs sd = real (length cs)"
    using assms(2) by (simp add: clickFrequency_def max_def)
  have pos: "0 < length cs"
    using assms(1) by simp
  have one: "(real (length cs) > 0.1 \<and> real (length cs) < 2.0) = (length cs = 1)"
    using pos by (cases "length cs = 1") auto
  show ?thesis
    using pos one by (simp add: clickAnalysis_def cf Let_def)
qed

lemma clickAnalysis_long_session:
  assumes "cs \<noteq> []" and "1000 \<le> sd"
  shows "clickAnalysis cs sd r =
           (if 0.1 < real (length cs) / (sd / 1000) \<and> real (length cs) / (sd / 1000) < 2
              then r - 0.1
            else if 5 < real (length cs) / (sd / 1000) then r + 0.2
            else r)"
proof -
  have "max (sd / 1000) 1 = sd / 1000"
    using assms(2) by (simp add: max_def)
  then have cf: "clickFrequency cs sd = real (length cs) / (sd / 1000)"
    by (simp add: clickFrequency_def)
  show ?thesis
    using assms(1) by (auto simp: clickAnalysis_def cf Let_def)
qed

lemma sessionAnalysis_short: "sd < 1000 \<Longrightarrow> sessionAnalysis sd r = r + 0.2"
  by (simp add: sessionAnalysis_def)

text \<open>
  C10. In the fallback scorer \<open>clickFrequency\<close> is \<open>clicks.length\<close> divided by
  \<open>max(sessionDuration/1000, 1)\<close>. The divisor is at least one second, so the division is
  never by zero and the frequency never exceeds the click count; for a session shorter
  than 1000 ms the frequency is the raw click count, which, when the session has clicks
  and a positive duration, is not the number of clicks per elapsed second. In the scorer
  this means: from 1000 ms on, the click adjustment is decided by clicks per elapsed
  second; below 1000 ms with clicks present it is decided by the click count alone
  (one click: \<open>-0.1\<close>; more than five: \<open>+0.2\<close>; otherwise none), in both versions of the
  scorer.
\<close>

theorem clickFrequency_denominator_floor:
  "clickFrequency cs sd = real (length cs) / max (sd / 1000) 1 \<and>
   1 \<le> max (sd / 1000) 1 \<and>
   clickFrequency cs sd * max (sd / 1000) 1 = real (length cs) \<and>
   0 \<le> clickFrequency cs sd \<and> clickFrequency cs sd \<le> real (length cs) \<and>
   (sd < 1000 \<longrightarrow> clickFrequency cs sd = real (length cs)) \<and>
   (0 < sd \<and> sd < 1000 \<and> cs \<noteq> [] \<longrightarrow> clickFrequency cs sd \<noteq> real (length cs) / (sd / 1000)) \<and>
   (cs \<noteq> [] \<and> sd < 1000 \<longrightarrow>
      clickAnalysis cs sd r =
        (if length cs = 1 then r - 0.1 else if 5 < length cs then r + 0.2 else r)) \<and>
   (cs \<noteq> [] \<and> 1000 \<le> sd \<longrightarrow>
      clickAnalysis cs sd r =
        (if 0.1 < real (length cs) / (sd / 1000) \<and> real (length cs) / (sd / 1000) < 2
           then r - 0.1
         else if 5 < real (length cs) / (sd / 1000) then r + 0.2
         else r)) \<and>
   (clicks bd \<noteq> [] \<and> sessionDuration bd < 1000 \<longrightarrow>
      calculateBasicRiskScore bd =
        max 0 (min 1
          (keystrokeAnalysis (keystrokes bd)
             (if length (clicks bd) = 1 then mouseAnalysis (mouseMovements bd) 0.5 - 0.1
              else if 5 < length (clicks bd) then mouseAnalysis (mouseMovements bd) 0.5 + 0.2
              else mouseAnalysis (mouseMovements bd) 0.5)
           + 0.2)) \<and>
      calculateRiskScore bd = calculateBasicRiskScore bd)"
proof -
  have d: "1 \<le> max (sd / 1000) 1" by simp
  then have pos: "0 < max (sd / 1000) 1" by linarith
  have "real (length cs) / max (sd / 1000) 1 \<le> real (length cs) / 1"
    by (rule divide_left_mono) (use d pos in simp_all)
  then have le: "real (length cs) / max (sd / 1000) 1 \<le> real (length cs)"
    by simp
  have short: "sd < 1000 \<longrightarrow> clickFrequency cs sd = real (length cs)"
    by (simp add: clickFrequency_def max_def)
  have differs: "0 < sd \<and> sd < 1000 \<and> cs \<noteq> [] \<longrightarrow>
                 clickFrequency cs sd \<noteq> real (length cs) / (sd / 1000)"
    by (simp add: clickFrequency_def max_def field_simps)
  have helper: "clickFrequency cs sd = real (length cs) / max (sd / 1000) 1 \<and>
      1 \<le> max (sd / 1000) 1 \<and>
      clickFrequency cs sd * max (sd / 1000) 1 = real (length cs) \<and>
      0 \<le> clickFrequency cs sd \<and> clickFrequency cs sd \<le> real (length cs)"
    using d pos le by (simp add: clickFrequency_def)
  have scorer: "clicks bd \<noteq> [] \<and> sessionDuration bd < 1000 \<longrightarrow>
      calculateBasicRiskScore bd =
        max 0 (min 1
          (keystrokeAnalysis (keystrokes bd)
             (if length (clicks bd) = 1 then mouseAnalysis (mouseMovements bd) 0.5 - 0.1
              else if 5 < length (clicks bd) then mouseAnalysis (mouseMovements bd) 0.5 + 0.2
              else mouseAnalysis (mouseMovements bd) 0.5)
           + 0.2)) \<and>
      calculateRiskScore bd = calculateBasicRiskScore bd"
    by (simp add: calculateBasicRiskScore_def calculateRiskScore_eq Let_def
        clickAnalysis_short_session sessionAnalysis_short)
  show ?thesis
    using helper short differs scorer
      clickAnalysis_short_session [of cs sd r] clickAnalysis_long_session [of cs sd r]
    by blast
qed

theorem clickFrequency_denominator_floor_witness:
  "(100::real) < 1000 \<and> (0::real) < 100 \<and> oneClick \<noteq> [] \<and>
   clickFrequency oneClick 100 = 1 \<and>
   clickFrequency oneClick 100 \<noteq> real (length oneClick) / (100 / 1000) \<and>
   clickAnalysis oneClick 100 0.8 = 0.7 \<and>
   clickAnalysis oneClick 2000 0.8 = 0.7 \<and>
   clicks quickClick \<noteq> [] \<and> sessionDuration quickClick < 1000 \<and>
   calculateBasicRiskScore quickClick = 0.9 \<and>
   calculateRiskScore quickClick = 0.9"
proof -
  have m: "\<And>r. mouseAnalysis (mouseMovements quickClick) r = r + 0.3"
    "\<And>r. keystrokeAnalysis (keystrokes quickClick) r = r"
    by (simp_all add: quickClick_def mouseAnalysis_def keystrokeAnalysis_def)
  have q: "clicks quickClick = oneClick" "sessionDuration quickClick = 100"
    by (simp_all add: quickClick_def)
  note short = clickFrequency_denominator_floor [of oneClick 100 "0.8" quickClick]
  note long = clickFrequency_denominator_floor [of oneClick 2000 "0.8" quickClick]
  have a: "clickFrequency oneClick 100 = 1 \<and>
           clickFrequency oneClick 100 \<noteq> real (length oneClick) / (100 / 1000)"
    using short by (simp add: oneClick_def)
  have b: "clickAnalysis oneClick 100 0.8 = 0.7"
    using short by (simp add: oneClick_def)
  have c: "clickAnalysis oneClick 2000 0.8 = 0.7"
    using long by (simp add: oneClick_def)
  have d: "calculateBasicRiskScore quickClick = 0.9 \<and> calculateRiskScore quickClick = 0.9"
    using short by (simp add: q m oneClick_def)
  show ?thesis
    using a b c d by (simp add: q oneClick_def)
qed

section \<open>Properties of the telemetry buffers\<close>

lemma slice_last_snoc:
  "slice_last n (slice_last (Suc n) L) @ [x] = slice_last (Suc n) (L @ [x])"
proof -
  have "length L - (length L - Suc n + n) + (length L - Suc n) = length L - n"
    by arith
  then show ?thesis
    by (simp add: slice_last_def)
qed

lemma slice_last_length: "length (slice_last n xs) \<le> n"
  by (simp add: slice_last_def)

lemma mouse_fifo:
  "mouseMovements (behaviorData t) = slice_last 50 L \<Longrightarrow>
   mouseMovements (behaviorData (track t es)) = slice_last 50 (L @ mouseInserted t es)"
proof (induction es arbitrary: t L)
  case Nil
  then show ?case by (simp add: track_def)
next
  case (Cons e es)
  have step: "mouseMovements (behaviorData (handleEvent t e)) =
      slice_last 50 (L @ (case e of MouseMove clientX clientY now \<Rightarrow>
                                      [mouseSample t clientX clientY now] | _ \<Rightarrow> []))"
    using Cons.prems slice_last_snoc [of 49 L]
    by (cases e)
       (simp_all add: addMouseMovement_def addClick_def addKeystroke_def split: option.splits)
  from Cons.IH [OF step] show ?case by (simp add: track_def)
qed

lemma clicks_fifo:
  "clicks (behaviorData t) = slice_last 20 L \<Longrightarrow>
   clicks (behaviorData (track t es)) = slice_last 20 (L @ clicksInserted t es)"
proof (induction es arbitrary: t L)
  case Nil
  then show ?case by (simp add: track_def)
next
  case (Cons e es)
  have step: "clicks (behaviorData (handleEvent t e)) =
      slice_last 20 (L @ (case e of
                            Click clientX clientY now \<Rightarrow>
                              [\<lparr>click_x = clientX, click_y = clientY, click_timestamp = now\<rparr>]
                          | _ \<Rightarrow> []))"
    using Cons.prems slice_last_snoc [of 19 L]
    by (cases e)
       (simp_all add: addMouseMovement_def addClick_def addKeystroke_def split: option.splits)
  from Cons.IH [OF step] show ?case by (simp add: track_def)
qed

lemma keys_fifo:
  "keystrokes (behaviorData t) = slice_last 30 L \<Longrightarrow>
   keystrokes (behaviorData (track t es)) = slice_last 30 (L @ keysInserted t es)"
proof (induction es arbitrary: t L)
  case Nil
  then show ?case by (simp add: track_def)
next
  case (Cons e es)
  have step: "keystrokes (behaviorData (handleEvent t e)) =
      slice_last 30 (L @ (case e of
                            KeyUp k now \<Rightarrow>
                              (case keyPressStart t k of
                                 None \<Rightarrow> []
                               | Some pressed \<Rightarrow>
                                   if pressed = 0 then []
                                   else [\<lparr>key = k, key_timestamp = pressed,
                                          duration = now - pressed\<rparr>])
                          | _ \<Rightarrow> []))"
    using Cons.prems slice_last_snoc [of 29 L]
    by (cases e)
       (simp_all add: addMouseMovement_def addClick_def addKeystroke_def split: option.splits)
  from Cons.IH [OF step] show ?case by (simp add: track_def)
qed

lemma foldl_buffer:
  assumes upd: "\<And>d x. get (upd d x) = slice_last n (get d) @ [x]"
  shows "get d0 = slice_last (Suc n) L \<Longrightarrow>
         get (foldl upd d0 xs) = slice_last (Suc n) (L @ xs)"
proof (induction xs arbitrary: d0 L)
  case Nil
  then show ?case by simp
next
  case (Cons x xs)
  have "get (upd d0 x) = slice_last (Suc n) (L @ [x])"
    using Cons.prems upd slice_last_snoc [of n L x] by simp
  from Cons.IH [OF this] show ?case by simp
qed

lemma initial_buffers:
  "mouseMovements initialBehaviorData = slice_last k [] \<and>
   clicks initialBehaviorData = slice_last k [] \<and>
   keystrokes initialBehaviorData = slice_last k []"
  by (simp add: initialBehaviorData_def slice_last_def)

text \<open>
  C5. From the hook's initial state, after any sequence of events each buffer holds
  exactly the last 50 (motion), 20 (click), 30 (key) samples inserted so far, in the
  order of insertion, so it never exceeds that capacity and the oldest sample leaves
  first. The same holds for the three state updaters applied to any list of samples:
  after \<open>N + k\<close> insertions the last \<open>N\<close> inserted samples are what the buffer holds.
\<close>

theorem telemetry_buffers_bounded_fifo:
  "mouseMovements (behaviorData (track (initialTracker s) es)) =
     drop (length (mouseInserted (initialTracker s) es) - 50) (mouseInserted (initialTracker s) es) \<and>
   clicks (behaviorData (track (initialTracker s) es)) =
     drop (length (clicksInserted (initialTracker s) es) - 20) (clicksInserted (initialTracker s) es) \<and>
   keystrokes (behaviorData (track (initialTracker s) es)) =
     drop (length (keysInserted (initialTracker s) es) - 30) (keysInserted (initialTracker s) es) \<and>
   length (mouseMovements (behaviorData (track (initialTracker s) es))) \<le> 50 \<and>
   length (clicks (behaviorData (track (initialTracker s) es))) \<le> 20 \<and>
   length (keystrokes (behaviorData (track (initialTracker s) es))) \<le> 30 \<and>
   mouseMovements (foldl (\<lambda>prev m. addMouseMovement m dn prev) initialBehaviorData ms) =
     drop (length ms - 50) ms \<and>
   clicks (foldl (\<lambda>prev c. addClick c prev) initialBehaviorData cs) = drop (length cs - 20) cs \<and>
   keystrokes (foldl (\<lambda>prev k. addKeystroke k prev) initialBehaviorData ks) =
     drop (length ks - 30) ks"
proof -
  let ?t = "initialTracker s"
  have init: "behaviorData ?t = initialBehaviorData"
    by (simp add: initialTracker_def)
  have m: "mouseMovements (behaviorData (track ?t es)) = slice_last 50 (mouseInserted ?t es)"
    using mouse_fifo [of ?t "[]" es] initial_buffers [of 50] init by simp
  have c: "clicks (behaviorData (track ?t es)) = slice_last 20 (clicksInserted ?t es)"
    using clicks_fifo [of ?t "[]" es] initial_buffers [of 20] init by simp
  have k: "keystrokes (behaviorData (track ?t es)) = slice_last 30 (keysInserted ?t es)"
    using keys_fifo [of ?t "[]" es] initial_buffers [of 30] init by simp
  have um: "mouseMovements (foldl (\<lambda>prev m. addMouseMovement m dn prev) initialBehaviorData ms) =
              slice_last (Suc 49) ([] @ ms)"
    by (rule foldl_buffer [where n = 49])
       (simp_all add: addMouseMovement_def initialBehaviorData_def slice_last_def)
  have uc: "clicks (foldl (\<lambda>prev c. addClick c prev) initialBehaviorData cs) =
              slice_last (Suc 19) ([] @ cs)"
    by (rule foldl_buffer [where n = 19])
       (simp_all add: addClick_def initialBehaviorData_def slice_last_def)
  have uk: "keystrokes (foldl (\<lambda>prev k. addKeystroke k prev) initialBehaviorData ks) =
              slice_last (Suc 29) ([] @ ks)"
    by (rule foldl_buffer [where n = 29])
       (simp_all add: addKeystroke_def initialBehaviorData_def slice_last_def)
  have lm: "length (mouseMovements (behaviorData (track ?t es))) \<le> 50"
    unfolding m by (rule slice_last_length)
  have lc: "length (clicks (behaviorData (track ?t es))) \<le> 20"
    unfolding c by (rule slice_last_length)
  have lk: "length (keystrokes (behaviorData (track ?t es))) \<le> 30"
    unfolding k by (rule slice_last_length)
  show ?thesis
    using m c k um uc uk lm lc lk by (simp add: slice_last_def)
qed

section \<open>Properties of the challenges\<close>

lemma everyMatches_eq:
  assumes l: "length xs = length ys"
  shows "everyMatches xs ys = (xs = ys)"
proof -
  have "everyMatches xs ys = (\<forall>i<length xs. xs ! i = ys ! i)"
    using l by (auto simp: everyMatches_def list_all_iff)
  also have "\<dots> = (xs = ys)"
    using l list_eq_iff_nth_eq by blast
  finally show ?thesis .
qed

lemma run_unmounted: "mounted p = None \<Longrightarrow> run p evs = p"
  by (induction evs) (simp_all add: run_def step_def)

lemma run_Cons: "run p (ev # evs) = run (step p ev) evs"
  by (simp add: run_def)

lemma childHandle_interaction:
  assumes "ev \<noteq> Tick" and "childHandle ch ev c = (c', cb)"
  shows "timeLeft c' = timeLeft c \<and> (cb = None \<or> (\<exists>r. cb = Some (OnChallengeComplete r)))"
  using assms
  by (cases ev)
     (auto simp: handleButtonClick_def handleInputChange_def Let_def
        split: if_splits option.splits)

lemma step_interaction:
  assumes m: "mounted p = Some c" and ch: "challenge (system p) = Some ch"
    and st: "captchaState (system p) = ChallengeState"
    and ev: "ev \<noteq> Tick" and nc: "\<not> completes p ev"
  shows "\<exists>c'. mounted (step p ev) = Some c' \<and> timeLeft c' = timeLeft c \<and>
              system (step p ev) = system p"
proof -
  obtain c' cb where h: "childHandle ch ev c = (c', cb)"
    by (cases "childHandle ch ev c")
  have "cb = None"
    using childHandle_interaction [OF ev h] nc m ch h by (auto simp: completes_def)
  then have "step p ev = \<lparr>system = system p, mounted = Some c'\<rparr>"
    using m ch st h by (simp add: step_def rerender_def)
  then show ?thesis
    using childHandle_interaction [OF ev h] by simp
qed

lemma countdown_reaches_timeout:
  assumes "mounted p = Some c" and "challenge (system p) = Some ch"
    and "captchaState (system p) = ChallengeState"
    and "\<not> responseCompleted p evs"
    and "0 < k" and "k \<le> count_list evs Tick" and "timeLeft c \<le> real k"
  shows "captchaState (system (run p evs)) = Failure \<and>
         finalResult (system (run p evs)) = Some timeoutResult"
  using assms
proof (induction evs arbitrary: p c k)
  case Nil
  then show ?case by simp
next
  case (Cons ev evs)
  let ?q = "step p ev"
  have later: "\<not> responseCompleted ?q evs"
    using Cons.prems(4) by simp
  show ?case
  proof (cases "ev = Tick")
    case tick: True
    show ?thesis
    proof (cases "timeLeft c \<le> 1")
      case True
      have q: "mounted ?q = None" "captchaState (system ?q) = Failure"
        "finalResult (system ?q) = Some timeoutResult"
        using Cons.prems(1-3) True tick
        by (simp_all add: step_def timerTick_def rerender_def handleChallengeTimeout_def
            timeoutResult_def)
      show ?thesis
        using run_unmounted [OF q(1)] q by (simp add: run_Cons)
    next
      case False
      have q: "mounted ?q = Some (c\<lparr>timeLeft := timeLeft c - 1\<rparr>)"
        "challenge (system ?q) = Some ch" "captchaState (system ?q) = ChallengeState"
        using Cons.prems(1-3) False tick by (simp_all add: step_def timerTick_def rerender_def)
      have k: "0 < k - 1"
        using False Cons.prems(7) by (cases k; cases "k - 1") auto
      have cnt: "k - 1 \<le> count_list evs Tick"
        using Cons.prems(6) tick by simp
      have tl: "timeLeft (c\<lparr>timeLeft := timeLeft c - 1\<rparr>) \<le> real (k - 1)"
        using Cons.prems(7) k by (simp add: of_nat_diff)
      show ?thesis
        using Cons.IH [OF q later k cnt tl] by (simp add: run_Cons)
    qed
  next
    case other: False
    have nc: "\<not> completes p ev"
      using Cons.prems(4) by simp
    obtain c' where c': "mounted ?q = Some c'" "timeLeft c' = timeLeft c"
      "system ?q = system p"
      using step_interaction [OF Cons.prems(1-3) other nc] by blast
    have q: "challenge (system ?q) = Some ch" "captchaState (system ?q) = ChallengeState"
      using c'(3) Cons.prems(2,3) by simp_all
    have cnt: "k \<le> count_list evs Tick"
      using Cons.prems(6) other by simp
    have tl: "timeLeft c' \<le> real k"
      using c'(2) Cons.prems(7) by simp
    show ?thesis
      using Cons.IH [OF c'(1) q later Cons.prems(5) cnt tl] by (simp add: run_Cons)
  qed
qed

lemma completionTime_ignored:
  "handleChallengeComplete held sys (r\<lparr>completionTime := t\<rparr>) = handleChallengeComplete held sys r"
  by (cases held) (simp_all add: handleChallengeComplete_def)

text \<open>
  C6 (as stated, refuted). The claim is that a response submitted later than the time
  limit yields \<open>ChallengeExpired\<close> and a failure with method \<open>timeout\<close>. The typing
  challenge has a limit of 10000 ms; the countdown has ticked nine times and the
  correct text is completed at 10001 ms, before the tenth tick has run. The response is
  handed to \<open>handleChallengeComplete\<close>, which looks at no time: as wired the session
  ends in failure with no result and no method recorded, and with the current challenge
  in the validation's closure the same response is accepted, with method
  \<open>challenge_completion\<close>.
\<close>

theorem late_response_not_expired:
  "timeLimit typingChallenge < completionTime lateResponse \<and>
   mounted (run typingPage (replicate 9 Tick)) =
     Some \<lparr>timeLeft = 1, isComplete = False, startTime = 0, clickSequence = [],
           typedText = []\<rparr> \<and>
   handleInputChange typingChallenge 10001 ''I am human''
       \<lparr>timeLeft = 1, isComplete = False, startTime = 0, clickSequence = [], typedText = []\<rparr> =
     (\<lparr>timeLeft = 1, isComplete = True, startTime = 0, clickSequence = [],
       typedText = ''I am human''\<rparr>,
      Some (OnChallengeComplete lateResponse)) \<and>
   system (run typingPage (replicate 9 Tick @ [InputChange ''I am human'' 10001])) =
     \<lparr>captchaState = Failure, challenge = Some typingChallenge, finalResult = None\<rparr> \<and>
   handleChallengeComplete (Some typingChallenge) (system typingPage) lateResponse =
     \<lparr>captchaState = Success, challenge = Some typingChallenge,
      finalResult = Some \<lparr>success = True, resultIsHuman = True, resultConfidence = 0.9,
                          challengeRequired = True, resultMethod = ''challenge_completion''\<rparr>\<rparr>"
  by (simp add: typingPage_def run_def step_def showChallenge_def initialCaptchaSystem_def
      typingChallenge_def lateResponse_def mountChallengeSystem_def handleInputChange_def
      rerender_def timerTick_def onChallengeComplete_def handleChallengeComplete_def
      numeral_eq_Suc Let_def)

text \<open>
  C6 (amended). Expiry is driven by the countdown alone. In every session (ticks of
  the one-second timer interleaved with button presses and input changes in any order)
  in which the timer has ticked \<open>n\<close> times with \<open>n \<ge> timeLimit / 1000\<close> and \<open>n \<ge> 1\<close>,
  and in which no response has completed, the session is in the terminal failure state
  with method \<open>timeout\<close>. A completed response is never compared with the time limit:
  what \<open>handleChallengeComplete\<close> does with it does not depend on its completion time.
\<close>

theorem countdown_expiry_fails_with_timeout:
  assumes "\<not> responseCompleted (showChallenge ch now sys) evs"
    and "0 < count_list evs Tick"
    and "timeLimit ch / 1000 \<le> real (count_list evs Tick)"
  shows "captchaState (system (run (showChallenge ch now sys) evs)) = Failure \<and>
         finalResult (system (run (showChallenge ch now sys) evs)) = Some timeoutResult \<and>
         resultMethod timeoutResult = ''timeout'' \<and>
         handleChallengeComplete held sys' (r\<lparr>completionTime := t\<rparr>) =
           handleChallengeComplete held sys' r"
proof -
  let ?p = "showChallenge ch now sys"
  have p: "mounted ?p = Some (mountChallengeSystem ch now)" "challenge (system ?p) = Some ch"
    "captchaState (system ?p) = ChallengeState"
    by (simp_all add: showChallenge_def)
  have tl: "timeLeft (mountChallengeSystem ch now) \<le> real (count_list evs Tick)"
    using assms(3) by (simp add: mountChallengeSystem_def)
  from countdown_reaches_timeout [OF p assms(1) assms(2) order_refl tl]
  show ?thesis
    by (simp add: completionTime_ignored timeoutResult_def)
qed

theorem countdown_expiry_fails_with_timeout_witness:
  "\<not> responseCompleted typingPage partialTyping \<and>
   0 < count_list partialTyping Tick \<and>
   timeLimit typingChallenge / 1000 \<le> real (count_list partialTyping Tick) \<and>
   captchaState (system (run typingPage partialTyping)) = Failure \<and>
   finalResult (system (run typingPage partialTyping)) = Some timeoutResult"
proof -
  have a: "\<not> responseCompleted (showChallenge typingChallenge 0 initialCaptchaSystem) partialTyping"
    by (simp add: partialTyping_def showChallenge_def initialCaptchaSystem_def
        typingChallenge_def mountChallengeSystem_def completes_def step_def timerTick_def
        handleInputChange_def rerender_def numeral_eq_Suc Let_def)
  have n: "count_list partialTyping Tick = 10"
    by (simp add: partialTyping_def numeral_eq_Suc)
  have b: "0 < count_list partialTyping Tick"
    using n by simp
  have c: "timeLimit typingChallenge / 1000 \<le> real (count_list partialTyping Tick)"
    using n by (simp add: typingChallenge_def)
  from countdown_expiry_fails_with_timeout [OF a b c] a b c
  show ?thesis
    by (simp add: typingPage_def)
qed

text \<open>
  What the click-sequence component hands over: a response is produced at the press
  that brings the submitted sequence to the length of the expected one, its \<open>correct\<close>
  flag says whether the two sequences are equal, and a validation that holds the issued
  challenge returns that flag.
\<close>

lemma click_sequence_correct_flag:
  assumes "ctype ch = ''click-sequence''" and "sequence ch = Some expected"
    and "handleButtonClick ch now b c = (c', Some (OnChallengeComplete r))"
  shows "clickSequence c' = clickSequence c @ [b] \<and>
         length (clickSequence c') = length expected \<and>
         response r = SequencePayload (clickSequence c') (clickSequence c' = expected) \<and>
         validateChallengeResponse (Some ch) r = Inr (clickSequence c' = expected)"
  using assms
  by (auto simp: handleButtonClick_def Let_def everyMatches_eq split: if_splits)

text \<open>As wired, every completed response ends the session in failure.\<close>

lemma onChallengeComplete_fails: "captchaState (onChallengeComplete sys r) = Failure"
  by (simp add: onChallengeComplete_def handleChallengeComplete_def)

text \<open>
  C7 (the code departs from the claim). The claim is that a click-sequence response is
  valid exactly when the submitted sequence equals the expected one, so that for the
  expected sequence 1, 3, 2 the response 1, 3, 2 is valid and 1, 2, 3 is not. The
  component does compute that: pressing 1, 3, 2 produces a response flagged correct, and
  a validation holding the issued challenge accepts it. But the page validates with the
  first render's closure, in which the challenge is \<open>null\<close>: the validation throws, the
  exception is caught, and the session ends in failure with no result recorded, for the
  valid response 1, 3, 2 just as for 1, 2, 3.
\<close>

theorem valid_click_sequence_fails_as_wired:
  "mounted (run clickPage [ButtonClick 1 100, ButtonClick 3 200]) = Some pressedOneThree \<and>
   snd (handleButtonClick clickChallenge 300 2 pressedOneThree) =
     Some (OnChallengeComplete responseOneThreeTwo) \<and>
   response responseOneThreeTwo = SequencePayload [1, 3, 2] True \<and>
   validateChallengeResponse (Some clickChallenge) responseOneThreeTwo = Inr True \<and>
   captchaState
     (handleChallengeComplete (Some clickChallenge) (system clickPage) responseOneThreeTwo) =
     Success \<and>
   validateChallengeResponse None responseOneThreeTwo = Inl TypeError \<and>
   system (run clickPage [ButtonClick 1 100, ButtonClick 3 200, ButtonClick 2 300]) =
     \<lparr>captchaState = Failure, challenge = Some clickChallenge, finalResult = None\<rparr> \<and>
   mounted (run clickPage [ButtonClick 1 100, ButtonClick 2 200]) = Some pressedOneTwo \<and>
   snd (handleButtonClick clickChallenge 300 3 pressedOneTwo) =
     Some (OnChallengeComplete responseOneTwoThree) \<and>
   validateChallengeResponse (Some clickChallenge) responseOneTwoThree = Inr False \<and>
   system (run clickPage [ButtonClick 1 100, ButtonClick 2 200, ButtonClick 3 300]) =
     \<lparr>captchaState = Failure, challenge = Some clickChallenge, finalResult = None\<rparr>"
proof -
  have good:
    "mounted (run clickPage [ButtonClick 1 100, ButtonClick 3 200]) = Some pressedOneThree \<and>
     snd (handleButtonClick clickChallenge 300 2 pressedOneThree) =
       Some (OnChallengeComplete responseOneThreeTwo) \<and>
     response responseOneThreeTwo = SequencePayload [1, 3, 2] True \<and>
     validateChallengeResponse (Some clickChallenge) responseOneThreeTwo = Inr True \<and>
     validateChallengeResponse None responseOneThreeTwo = Inl TypeError"
    by (simp add: clickPage_def run_def step_def showChallenge_def initialCaptchaSystem_def
        clickChallenge_def pressedOneThree_def responseOneThreeTwo_def mountChallengeSystem_def
        handleButtonClick_def rerender_def everyMatches_def Let_def)
  have intended:
    "captchaState
       (handleChallengeComplete (Some clickChallenge) (system clickPage) responseOneThreeTwo) =
     Success"
    by (simp add: handleChallengeComplete_def clickChallenge_def responseOneThreeTwo_def)
  have wired:
    "system (run clickPage [ButtonClick 1 100, ButtonClick 3 200, ButtonClick 2 300]) =
       \<lparr>captchaState = Failure, challenge = Some clickChallenge, finalResult = None\<rparr>"
    by (simp add: clickPage_def run_def step_def showChallenge_def initialCaptchaSystem_def
        clickChallenge_def mountChallengeSystem_def handleButtonClick_def rerender_def
        everyMatches_def onChallengeComplete_def handleChallengeComplete_def Let_def)
  have bad:
    "mounted (run clickPage [ButtonClick 1 100, ButtonClick 2 200]) = Some pressedOneTwo \<and>
     snd (handleButtonClick clickChallenge 300 3 pressedOneTwo) =
       Some (OnChallengeComplete responseOneTwoThree) \<and>
     validateChallengeResponse (Some clickChallenge) responseOneTwoThree = Inr False"
    by (simp add: clickPage_def run_def step_def showChallenge_def initialCaptchaSystem_def
        clickChallenge_def pressedOneTwo_def responseOneTwoThree_def mountChallengeSystem_def
        handleButtonClick_def rerender_def everyMatches_def Let_def)
  have failure:
    "system (run clickPage [ButtonClick 1 100, ButtonClick 2 200, ButtonClick 3 300]) =
       \<lparr>captchaState = Failure, challenge = Some clickChallenge, finalResult = None\<rparr>"
    by (simp add: clickPage_def run_def step_def showChallenge_def initialCaptchaSystem_def
        clickChallenge_def mountChallengeSystem_def handleButtonClick_def rerender_def
        everyMatches_def onChallengeComplete_def handleChallengeComplete_def Let_def)
  show ?thesis
    using good intended wired bad failure by blast
qed

text \<open>
  C9 (as stated, refuted). The claim is that issuing a challenge of an unrecognised
  type fails with \<open>UnknownChallengeType\<close> and that the endpoint never substitutes a
  default. For the type \<open>hologram\<close>, which is none of the three challenge names, the
  endpoint answers successfully with the mouse-pattern challenge.
\<close>

theorem unknown_type_gets_default:
  "map_of challenges ''hologram'' = None \<and>
   issueChallenge ''hologram'' ''s'' ''challenge_0'' ''t'' =
     Inr (IssuedChallenge
            \<lparr>ctype = ''mouse-pattern'', instruction = ''Draw a circle with your mouse'',
             expectedPattern = Some ''circle'', sequence = None, expectedText = None,
             timeLimit = 10000, sessionId = ''s'', challengeId = ''challenge_0'',
             timestamp = ''t''\<rparr>)"
  by (simp add: issueChallenge_def chooseChallenge_def readChallenges_def challenges_def
      objectPrototypeMembers_def ChallengeSpec.extend_def Challenge.fields_def)

lemma readChallenges_missing:
  "map_of challenges k = None \<Longrightarrow> k \<notin> set objectPrototypeMembers \<Longrightarrow> readChallenges k = NoMember"
  by (simp add: readChallenges_def)

lemma readChallenges_mouse: "readChallenges ''mouse-pattern'' = OwnEntry mousePatternSpec"
  by (simp add: readChallenges_def challenges_def mousePatternSpec_def)

text \<open>
  C9 (amended). Issuing a challenge never fails. For a type that is none of the three
  challenge names (and not the name of a member every object inherits), the endpoint
  itself substitutes the default: it answers with the mouse-pattern challenge, time
  limit 10000 ms.
\<close>

theorem unrecognized_type_defaults_to_mouse_pattern:
  assumes "map_of challenges k = None" and "k \<notin> set objectPrototypeMembers"
  shows "issueChallenge k sid cid ts =
           Inr (IssuedChallenge (ChallengeSpec.extend mousePatternSpec (Challenge.fields sid cid ts))) \<and>
         issueChallenge k sid cid ts = issueChallenge ''mouse-pattern'' sid cid ts \<and>
         (\<exists>i. issueChallenge k' sid cid ts = Inr i)"
proof -
  have "\<exists>i. issueChallenge k' sid cid ts = Inr i"
    by (simp add: issueChallenge_def split: member.splits)
  then show ?thesis
    using readChallenges_missing [OF assms] readChallenges_mouse
    by (simp add: issueChallenge_def chooseChallenge_def)
qed

theorem unrecognized_type_defaults_to_mouse_pattern_witness:
  "map_of challenges ''undefined'' = None \<and> ''undefined'' \<notin> set objectPrototypeMembers \<and>
   issueChallenge ''undefined'' ''s'' ''challenge_1'' ''t'' =
     issueChallenge ''mouse-pattern'' ''s'' ''challenge_1'' ''t''"
proof -
  have a: "map_of challenges ''undefined'' = None"
    by (simp add: challenges_def)
  have b: "''undefined'' \<notin> set objectPrototypeMembers"
    by (simp add: objectPrototypeMembers_def)
  from unrecognized_type_defaults_to_mouse_pattern [OF a b, of "''s''" "''challenge_1''" "''t''"] a b
  show ?thesis
    by blast
qed

section \<open>Properties of the typing-pattern detection\<close>

lemma elevenFast_length: "length elevenFast = 11"
  by (simp add: elevenFast_def)

lemma elevenFast_nth:
  "i < 11 \<Longrightarrow> elevenFast ! i = \<lparr>key = ''a'', key_timestamp = 70 * real i, duration = 20\<rparr>"
  by (simp add: elevenFast_def)

lemma elevenFast_dwellTimes: "dwellTimes elevenFast = replicate 11 20"
  by (simp add: elevenFast_def dwellTimes_def upt_rec numeral_eq_Suc)

lemma elevenFast_flightTimes: "flightTimes elevenFast = replicate 10 50"
proof -
  have "\<And>i. i \<in> set [1..<11] \<Longrightarrow>
          (let flightTime =
                 key_timestamp (elevenFast ! i)
                   - (key_timestamp (elevenFast ! (i - 1)) + duration (elevenFast ! (i - 1)))
           in if flightTime \<ge> 0 \<and> flightTime < 2000 then [flightTime] else []) = [50]"
    by (auto simp: elevenFast_nth Let_def algebra_simps of_nat_diff)
  then have
    "map (\<lambda>i. let flightTime =
                     key_timestamp (elevenFast ! i)
                       - (key_timestamp (elevenFast ! (i - 1)) + duration (elevenFast ! (i - 1)))
               in if flightTime \<ge> 0 \<and> flightTime < 2000 then [flightTime] else [])
         [1..<11]
     = map (\<lambda>i. [50]) [1..<11]"
    by (intro map_cong) auto
  then show ?thesis
    by (simp add: flightTimes_def elevenFast_length upt_rec numeral_eq_Suc)
qed

lemma elevenFast_statistics:
  "averageDwellTime elevenFast = 20 \<and> averageFlightTime elevenFast = 50 \<and>
   rhythmVariability elevenFast = 0"
  by (simp add: averageDwellTime_def averageFlightTime_def rhythmVariability_def average_def
      elevenFast_dwellTimes elevenFast_flightTimes numeral_eq_Suc)

text \<open>
  C8 (as stated, refuted). The claim is that the pattern is \<open>insufficient-data\<close> exactly
  when there are fewer than 10 keystrokes. A list of exactly 10 keystrokes is not
  shorter than 10, and its pattern is \<open>insufficient-data\<close>.
\<close>

theorem ten_keystrokes_insufficient:
  "\<not> length tenKeystrokes < 10 \<and> typingPattern tenKeystrokes = InsufficientData"
  by (simp add: typingPattern_def tenKeystrokes_def)

text \<open>
  C8 (amended). The pattern is \<open>insufficient-data\<close> exactly when the list has at most
  10 keystrokes. With more than 10 the thresholds apply in this order: bot-like when
  \<open>avgDwell < 30\<close>, \<open>avgFlight < 100\<close> and \<open>rhythm < 50\<close>; else hunt-peck when
  \<open>avgDwell > 200\<close> or \<open>avgFlight > 500\<close> or \<open>rhythm > 300\<close>; else touch-typing when
  \<open>avgDwell < 100\<close>, \<open>avgFlight < 200\<close> and \<open>rhythm < 100\<close>; else hybrid. In
  particular a list that meets the bot-like thresholds is bot-like even though it meets
  the touch-typing thresholds as well.
\<close>

theorem typing_pattern_thresholds:
  "(typingPattern ks = InsufficientData) = (length ks \<le> 10) \<and>
   typingPattern ks =
     (if length ks \<le> 10 then InsufficientData
      else if averageDwellTime ks < 30 \<and> averageFlightTime ks < 100 \<and> rhythmVariability ks < 50
        then BotLike
      else if averageDwellTime ks > 200 \<or> averageFlightTime ks > 500 \<or> rhythmVariability ks > 300
        then HuntPeck
      else if averageDwellTime ks < 100 \<and> averageFlightTime ks < 200 \<and> rhythmVariability ks < 100
        then TouchTyping
      else Hybrid) \<and>
   (10 < length ks \<and>
    averageDwellTime ks < 30 \<and> averageFlightTime ks < 100 \<and> rhythmVariability ks < 50 \<longrightarrow>
      typingPattern ks = BotLike)"
  by (auto simp: typingPattern_def Let_def)

theorem typing_pattern_thresholds_witness:
  "10 < length elevenFast \<and>
   averageDwellTime elevenFast < 30 \<and> averageFlightTime elevenFast < 100 \<and>
   rhythmVariability elevenFast < 50 \<and>
   averageDwellTime elevenFast < 100 \<and> averageFlightTime elevenFast < 200 \<and>
   rhythmVariability elevenFast < 100 \<and>
   typingPattern elevenFast = BotLike"
  using typing_pattern_thresholds [of elevenFast] elevenFast_length elevenFast_statistics
  by simp

end
